theory Spec2Isabelle
  imports Complex_Main "HOL-Library.Word"
begin

section \<open>JavaScript values and thrown errors\<close>

text \<open>
  The components work on values produced by \<^verbatim>\<open>JSON.parse\<close> (typed \<^verbatim>\<open>any\<close>) and on
  the result of reading a property of such a value, which may be \<^verbatim>\<open>undefined\<close>.
  A JSON number is a double; every finite double is a rational, and the code only tests
  numbers for truthiness and strict equality and converts them to strings. Strings are
  sequences of code units; the model has the code units U+0000 to U+00FF.
\<close>

datatype jsval =
    Undefined
  | Null
  | Bool bool
  | Num rat
  | Str string
  | Arr "jsval list"
  | Obj "(string \<times> jsval) list"

text \<open>
  What a \<^verbatim>\<open>catch\<close> clause can receive. \<open>Error m\<close> is an \<^verbatim>\<open>Error\<close> instance
  whose message is \<open>m\<close> (made by \<^verbatim>\<open>new Error(m)\<close>, or raised by a library);
  \<open>TypeError\<close> and \<open>InvalidCharacterError\<close> are the \<^verbatim>\<open>Error\<close> instances the
  engine raises for a property read on \<^verbatim>\<open>null\<close>/\<^verbatim>\<open>undefined\<close>, a call of a
  non-function, and a failed \<^verbatim>\<open>atob\<close>; \<open>NonError\<close> is a thrown value that is not an
  \<^verbatim>\<open>Error\<close> instance.
\<close>

datatype js_error =
    Error string
  | TypeError
  | InvalidCharacterError
  | NonError

text \<open>Truthiness, as \<^verbatim>\<open>!x\<close>, \<^verbatim>\<open>x || y\<close> and \<^verbatim>\<open>if (x)\<close> test it.\<close>

fun truthy :: "jsval \<Rightarrow> bool" where
  "truthy Undefined = False"
| "truthy Null = False"
| "truthy (Bool b) = b"
| "truthy (Num n) = (n \<noteq> 0)"
| "truthy (Str s) = (s \<noteq> [])"
| "truthy (Arr xs) = True"
| "truthy (Obj kvs) = True"

text \<open>
  \<^verbatim>\<open>a === b\<close> for two values that come from two different \<^verbatim>\<open>JSON.parse\<close> results:
  primitives are compared by type and value, arrays and objects by reference, and two
  parses never share a reference.
\<close>

fun strict_equals :: "jsval \<Rightarrow> jsval \<Rightarrow> bool" where
  "strict_equals Undefined Undefined = True"
| "strict_equals Null Null = True"
| "strict_equals (Bool a) (Bool b) = (a = b)"
| "strict_equals (Num a) (Num b) = (a = b)"
| "strict_equals (Str a) (Str b) = (a = b)"
| "strict_equals a b = False"

text \<open>
  \<^verbatim>\<open>v.name\<close> for the property names the components read (\<^verbatim>\<open>alg\<close>, \<^verbatim>\<open>kid\<close>,
  \<^verbatim>\<open>jwks_uri\<close>, \<^verbatim>\<open>issuer\<close>, \<^verbatim>\<open>keys\<close>). Reading a property of \<^verbatim>\<open>null\<close> or
  \<^verbatim>\<open>undefined\<close> raises a TypeError; a primitive or an array has none of these as data
  (an array's inherited \<^verbatim>\<open>keys\<close> is a method, which \<open>jwks_keys_find\<close> below
  handles where it matters).
\<close>

fun get_prop :: "jsval \<Rightarrow> string \<Rightarrow> js_error + jsval" where
  "get_prop Undefined name = Inl TypeError"
| "get_prop Null name = Inl TypeError"
| "get_prop (Obj kvs) name = (case map_of kvs name of None \<Rightarrow> Inr Undefined | Some v \<Rightarrow> Inr v)"
| "get_prop v name = Inr Undefined"

section \<open>String built-ins\<close>

text \<open>\<^verbatim>\<open>s.split(".")\<close>: the pieces between the separators; never an empty array.\<close>

fun split :: "string \<Rightarrow> char \<Rightarrow> string list" where
  "split [] sep = [[]]"
| "split (c # cs) sep =
     (if c = sep then [] # split cs sep
      else (case split cs sep of [] \<Rightarrow> [[c]] | p # ps \<Rightarrow> (c # p) # ps))"

text \<open>\<^verbatim>\<open>parts[i]\<close>: \<^verbatim>\<open>undefined\<close> out of range.\<close>

fun index :: "string list \<Rightarrow> nat \<Rightarrow> string option" where
  "index [] i = None"
| "index (p # ps) 0 = Some p"
| "index (p # ps) (Suc i) = index ps i"

text \<open>An \<^verbatim>\<open>undefined\<close> argument of a built-in that takes a string reads as the text "undefined".\<close>

definition arg_string :: "string option \<Rightarrow> string" where
  "arg_string a = (case a of None \<Rightarrow> ''undefined'' | Some s \<Rightarrow> s)"

text \<open>
  \<^verbatim>\<open>s.trim()\<close> removes white space and line terminators at both ends; among the code
  units of the model these are TAB, LF, VT, FF, CR, SPACE and NBSP.
\<close>

definition is_white_space :: "char \<Rightarrow> bool" where
  "is_white_space c = ((of_char c :: nat) \<in> {9, 10, 11, 12, 13, 32, 160})"

definition trim :: "string \<Rightarrow> string" where
  "trim s = rev (dropWhile is_white_space (rev (dropWhile is_white_space s)))"

definition endsWith :: "string \<Rightarrow> string \<Rightarrow> bool" where
  "endsWith s suffix = (length suffix \<le> length s \<and> drop (length s - length suffix) s = suffix)"

subsection \<open>atob\<close>

text \<open>
  \<^verbatim>\<open>atob\<close> is the platform's forgiving-base64 decode: ASCII white space is removed; if
  the length is then a multiple of four, one or two trailing \<^verbatim>\<open>=\<close> are removed; a
  length of 1 modulo 4 fails; any character outside \<^verbatim>\<open>A-Z a-z 0-9 + /\<close> fails; the rest
  is read six bits at a time, and the bits left over (four after two characters, two
  after three) are dropped. The result is a binary string, one code unit per byte.
\<close>

definition is_ascii_whitespace :: "char \<Rightarrow> bool" where
  "is_ascii_whitespace c = ((of_char c :: nat) \<in> {9, 10, 12, 13, 32})"

definition base64_value :: "char \<Rightarrow> nat option" where
  "base64_value c =
     (let n = (of_char c :: nat) in
      if 65 \<le> n \<and> n \<le> 90 then Some (n - 65)
      else if 97 \<le> n \<and> n \<le> 122 then Some (n - 71)
      else if 48 \<le> n \<and> n \<le> 57 then Some (n + 4)
      else if n = 43 then Some 62
      else if n = 47 then Some 63
      else None)"

fun base64_bytes :: "nat list \<Rightarrow> nat list" where
  "base64_bytes (a # b # c # d # rest) =
     (let n = ((a * 64 + b) * 64 + c) * 64 + d
      in (n div 65536) # ((n div 256) mod 256) # (n mod 256) # base64_bytes rest)"
| "base64_bytes [a, b, c] =
     (let n = ((a * 64 + b) * 64 + c) div 4 in [n div 256, n mod 256])"
| "base64_bytes [a, b] = [(a * 64 + b) div 16]"
| "base64_bytes [a] = []"
| "base64_bytes [] = []"

definition strip_padding :: "string \<Rightarrow> string" where
  "strip_padding d =
     (if length d mod 4 = 0 then
        (if 2 \<le> length d \<and> drop (length d - 2) d = ''=='' then take (length d - 2) d
         else if 1 \<le> length d \<and> drop (length d - 1) d = ''='' then take (length d - 1) d
         else d)
      else d)"

definition atob :: "string \<Rightarrow> js_error + string" where
  "atob data =
     (let d = strip_padding (filter (\<lambda>c. \<not> is_ascii_whitespace c) data) in
      if length d mod 4 = 1 then Inl InvalidCharacterError
      else (case those (map base64_value d) of
              None \<Rightarrow> Inl InvalidCharacterError
            | Some vs \<Rightarrow> Inr (map char_of (base64_bytes vs))))"

subsection \<open>UTF-8 and encodeURIComponent\<close>

text \<open>
  The UTF-8 encoding of a string of the model: one byte for a code unit below U+0080, two
  bytes for U+0080 to U+00FF.
\<close>

definition utf8_unit :: "char \<Rightarrow> nat list" where
  "utf8_unit c =
     (let n = (of_char c :: nat) in
      if n < 128 then [n] else [192 + n div 64, 128 + n mod 64])"

definition TextEncoder_encode :: "string \<Rightarrow> 8 word list" where
  "TextEncoder_encode s = map of_nat (concat (map utf8_unit s))"

definition hex_digit :: "nat \<Rightarrow> char" where
  "hex_digit n = (if n < 10 then char_of (48 + n) else char_of (55 + n))"

definition percent_byte :: "nat \<Rightarrow> string" where
  "percent_byte b = [CHR ''%'', hex_digit (b div 16), hex_digit (b mod 16)]"

definition uri_unreserved :: "char \<Rightarrow> bool" where
  "uri_unreserved c =
     (let n = (of_char c :: nat) in
      (65 \<le> n \<and> n \<le> 90) \<or> (97 \<le> n \<and> n \<le> 122) \<or> (48 \<le> n \<and> n \<le> 57)
      \<or> c \<in> set ''-_.!~*'()'')"

definition encodeURIComponent :: "string \<Rightarrow> string" where
  "encodeURIComponent s =
     concat (map (\<lambda>c. if uri_unreserved c then [c] else concat (map percent_byte (utf8_unit c))) s)"

subsection \<open>String conversion\<close>

definition join :: "string list \<Rightarrow> string \<Rightarrow> string" where
  "join xs sep = concat (case xs of [] \<Rightarrow> [] | y # ys \<Rightarrow> y # map (\<lambda>x. sep @ x) ys)"

text \<open>
  \<^verbatim>\<open>String(v)\<close>, as a template literal, \<^verbatim>\<open>fetch\<close>, \<^verbatim>\<open>encodeURIComponent\<close> and
  \<^verbatim>\<open>new URL\<close> apply it to a value that is not a string. An object is converted by
  its \<^verbatim>\<open>toString\<close>: the inherited one gives \<^verbatim>\<open>[object Object]\<close>, but an entry
  \<^verbatim>\<open>toString\<close> of the object's own, which in a parsed JSON text is never a function,
  hides it, and the conversion raises a TypeError. An array is converted by joining the
  conversions of its elements, \<^verbatim>\<open>null\<close> and \<^verbatim>\<open>undefined\<close> giving the empty text,
  from left to right; the first element that has no conversion raises. The conversion of
  a number is a parameter.
\<close>

fun js_String :: "(rat \<Rightarrow> string) \<Rightarrow> jsval \<Rightarrow> js_error + string"
  and js_Strings :: "(rat \<Rightarrow> string) \<Rightarrow> jsval list \<Rightarrow> js_error + string list" where
  "js_String num Undefined = Inr ''undefined''"
| "js_String num Null = Inr ''null''"
| "js_String num (Bool b) = Inr (if b then ''true'' else ''false'')"
| "js_String num (Num n) = Inr (num n)"
| "js_String num (Str s) = Inr s"
| "js_String num (Arr xs) =
     (case js_Strings num xs of Inl e \<Rightarrow> Inl e | Inr texts \<Rightarrow> Inr (join texts '',''))"
| "js_String num (Obj kvs) =
     (case map_of kvs ''toString'' of
        None \<Rightarrow> Inr ''[object Object]''
      | Some v \<Rightarrow> Inl TypeError)"
| "js_Strings num [] = Inr []"
| "js_Strings num (x # xs) =
     (case (if x = Undefined \<or> x = Null then Inr [] else js_String num x) of
        Inl e \<Rightarrow> Inl e
      | Inr text \<Rightarrow>
          (case js_Strings num xs of Inl e \<Rightarrow> Inl e | Inr texts \<Rightarrow> Inr (text # texts)))"

section \<open>The platform and the world\<close>

record response =
  ok :: bool
  statusText :: string
  json :: "js_error + jsval"

datatype cryptoKey = CryptoKey string jsval

datatype key_source =
    KeyObject cryptoKey
  | Secret "8 word list"
  | RemoteJWKSet string

record verify_options =
  algorithms :: "jsval list option"
  issuer :: "jsval option"

record jwtVerifyResult =
  payload :: jsval
  protectedHeader :: jsval

text \<open>What leaves the component: a request of \<^verbatim>\<open>fetch\<close>, a call into the jose library.\<close>

datatype event =
    Fetch string
  | ImportSPKI string jsval
  | JwtVerify string key_source verify_options

text \<open>
  Everything the components call and do not define is a parameter: \<^verbatim>\<open>JSON.parse\<close>,
  the conversion of a number to a string, \<^verbatim>\<open>new URL\<close>, the message text of an error
  the engine raises, the network (what the next \<^verbatim>\<open>fetch\<close> of a URL gives after the
  events so far: a rejection or a response), and jose's \<^verbatim>\<open>importSPKI\<close> and
  \<^verbatim>\<open>jwtVerify\<close>.
\<close>

record platform =
  JSON_parse :: "string \<Rightarrow> js_error + jsval"
  Number_toString :: "rat \<Rightarrow> string"
  URL_new :: "string \<Rightarrow> js_error + string"
  error_text :: "js_error \<Rightarrow> string"
  network :: "event list \<Rightarrow> string \<Rightarrow> js_error + response"
  jose_importSPKI :: "string \<Rightarrow> jsval \<Rightarrow> js_error + cryptoKey"
  jose_jwtVerify ::
    "event list \<Rightarrow> string \<Rightarrow> key_source \<Rightarrow> verify_options \<Rightarrow> js_error + jwtVerifyResult"

record verificationResult =
  isValid :: bool
  message :: string
  details :: "jwtVerifyResult option"

datatype toast = ToastSuccess string | ToastError string

record world =
  events :: "event list"
  isVerifying :: bool
  verificationResult :: "verificationResult option"
  toasts :: "toast list"

text \<open>
  An asynchronous computation: from a world to a rejection (\<open>Inl\<close>) or a value
  (\<open>Inr\<close>), and the world it leaves.
\<close>

type_synonym 'a io = "world \<Rightarrow> (js_error + 'a) \<times> world"

definition io_return :: "'a \<Rightarrow> 'a io" where
  "io_return x s = (Inr x, s)"

definition io_throw :: "js_error \<Rightarrow> 'a io" where
  "io_throw e s = (Inl e, s)"

definition lift :: "js_error + 'a \<Rightarrow> 'a io" where
  "lift r s = (r, s)"

definition await :: "'a io \<Rightarrow> ('a \<Rightarrow> 'b io) \<Rightarrow> 'b io" where
  "await m f s = (case m s of (Inl e, s') \<Rightarrow> (Inl e, s') | (Inr x, s') \<Rightarrow> f x s')"

definition try_catch :: "'a io \<Rightarrow> (js_error \<Rightarrow> 'a io) \<Rightarrow> 'a io" where
  "try_catch m h s = (case m s of (Inl e, s') \<Rightarrow> h e s' | (Inr x, s') \<Rightarrow> (Inr x, s'))"

definition try_finally :: "'a io \<Rightarrow> unit io \<Rightarrow> 'a io" where
  "try_finally m f s =
     (case m s of (r, s') \<Rightarrow>
        (case f s' of (Inl e, s'') \<Rightarrow> (Inl e, s'') | (Inr u, s'') \<Rightarrow> (r, s'')))"

definition fetch :: "platform \<Rightarrow> string \<Rightarrow> response io" where
  "fetch env url s = (network env (events s) url, s\<lparr>events := events s @ [Fetch url]\<rparr>)"

definition importSPKI :: "platform \<Rightarrow> string \<Rightarrow> jsval \<Rightarrow> cryptoKey io" where
  "importSPKI env pem alg s =
     (jose_importSPKI env pem alg, s\<lparr>events := events s @ [ImportSPKI pem alg]\<rparr>)"

definition jwtVerify ::
  "platform \<Rightarrow> string \<Rightarrow> key_source \<Rightarrow> verify_options \<Rightarrow> jwtVerifyResult io" where
  "jwtVerify env jwt key options s =
     (jose_jwtVerify env (events s) jwt key options,
      s\<lparr>events := events s @ [JwtVerify jwt key options]\<rparr>)"

definition setIsVerifying :: "bool \<Rightarrow> unit io" where
  "setIsVerifying b s = (Inr (), s\<lparr>isVerifying := b\<rparr>)"

definition setVerificationResult :: "verificationResult option \<Rightarrow> unit io" where
  "setVerificationResult r s = (Inr (), s\<lparr>verificationResult := r\<rparr>)"

definition toast_success :: "string \<Rightarrow> unit io" where
  "toast_success m s = (Inr (), s\<lparr>toasts := toasts s @ [ToastSuccess m]\<rparr>)"

definition toast_error :: "string \<Rightarrow> unit io" where
  "toast_error m s = (Inr (), s\<lparr>toasts := toasts s @ [ToastError m]\<rparr>)"

text \<open>\<^verbatim>\<open>error instanceof Error ? error.message : fallback\<close>\<close>

definition catch_message :: "platform \<Rightarrow> js_error \<Rightarrow> string \<Rightarrow> string" where
  "catch_message env error fallback =
     (case error of
        NonError \<Rightarrow> fallback
      | Error m \<Rightarrow> m
      | TypeError \<Rightarrow> error_text env TypeError
      | InvalidCharacterError \<Rightarrow> error_text env InvalidCharacterError)"

section \<open>jwt-tool.tsx: fetchWithCorsProxyFallback\<close>

definition proxyUrl :: "string \<Rightarrow> string" where
  "proxyUrl url = ''https://corsproxy.io/?'' @ encodeURIComponent url"

text \<open>
  The \<^verbatim>\<open>try\<close> block makes the direct request unless the flag is set, returns its
  response when that is \<^verbatim>\<open>ok\<close>, and otherwise goes on to the proxy request, throwing
  when the proxy's response is not \<^verbatim>\<open>ok\<close>. The \<^verbatim>\<open>catch\<close> block receives whatever
  the \<^verbatim>\<open>try\<close> block threw, rethrows it when the flag is set, and otherwise makes a proxy
  request of its own.
\<close>

definition fetchWithCorsProxyFallback :: "platform \<Rightarrow> string \<Rightarrow> bool \<Rightarrow> response io" where
  "fetchWithCorsProxyFallback env url useCorsProxy =
     try_catch
       (let useProxy =
              await (fetch env (proxyUrl url)) (\<lambda>proxyResponse.
                if \<not> ok proxyResponse then
                  io_throw (Error (''Failed to fetch from '' @ url @ '' (with CORS proxy): ''
                                   @ statusText proxyResponse))
                else io_return proxyResponse)
        in if \<not> useCorsProxy then
             await (fetch env url) (\<lambda>response.
               if ok response then io_return response else useProxy)
           else useProxy)
       (\<lambda>error.
          if useCorsProxy then io_throw error
          else
            await (fetch env (proxyUrl url)) (\<lambda>proxyResponse.
              if \<not> ok proxyResponse then
                io_throw (Error (''Failed to fetch from '' @ url
                                 @ '' (with CORS proxy fallback): '' @ statusText proxyResponse))
              else io_return proxyResponse))"

section \<open>jwt-tool.tsx: the three verification callbacks\<close>

text \<open>
  Each callback receives the validated form values, destructured on its first line, and
  has the shape \<^verbatim>\<open>setIsVerifying(true); setVerificationResult(null); try { ... }
  catch (error) { ... } finally { setIsVerifying(false); }\<close>. The \<^verbatim>\<open>try\<close> block of
  each is a definition of its own.
\<close>

text \<open>The optional \<^verbatim>\<open>algorithm\<close> of the asymmetric form: a string or \<^verbatim>\<open>undefined\<close>.\<close>

definition optional :: "string option \<Rightarrow> jsval" where
  "optional a = (case a of None \<Rightarrow> Undefined | Some s \<Rightarrow> Str s)"

definition verifyWithAsymmetricKey_try ::
  "platform \<Rightarrow> string \<Rightarrow> string \<Rightarrow> string option \<Rightarrow> unit io" where
  "verifyWithAsymmetricKey_try env token publicKey algorithm =
     await (lift (atob (arg_string (index (split token CHR ''.'') 0)))) (\<lambda>decoded.
     await (lift (JSON_parse env decoded)) (\<lambda>tokenHeader.
     await (if truthy (optional algorithm) then io_return (optional algorithm)
            else await (lift (get_prop tokenHeader ''alg'')) (\<lambda>headerAlg.
                   io_return (if truthy headerAlg then headerAlg else Str ''RS256''))) (\<lambda>alg.
     await (importSPKI env publicKey alg) (\<lambda>publicKeyObj.
     await (jwtVerify env token (KeyObject publicKeyObj)
              \<lparr>algorithms = Some [alg], issuer = None\<rparr>) (\<lambda>result.
     await (setVerificationResult (Some
              \<lparr>isValid = True,
               message = ''Token successfully verified with asymmetric key'',
               details = Some \<lparr>payload = payload result,
                                protectedHeader = protectedHeader result\<rparr>\<rparr>)) (\<lambda>u.
     toast_success ''JWT verified successfully''))))))"

definition verifyWithAsymmetricKey ::
  "platform \<Rightarrow> string \<Rightarrow> string \<Rightarrow> string option \<Rightarrow> unit io" where
  "verifyWithAsymmetricKey env token publicKey algorithm =
     await (setIsVerifying True) (\<lambda>u.
     await (setVerificationResult None) (\<lambda>u.
     try_finally
       (try_catch (verifyWithAsymmetricKey_try env token publicKey algorithm)
          (\<lambda>error.
             await (setVerificationResult (Some
                      \<lparr>isValid = False,
                       message = catch_message env error ''Verification failed'',
                       details = None\<rparr>)) (\<lambda>u.
             toast_error ''JWT verification failed'')))
       (setIsVerifying False)))"

text \<open>The \<^verbatim>\<open>algorithm\<close> of the symmetric form: \<^verbatim>\<open>z.enum(["HS256", "HS384", "HS512"])\<close>.\<close>

datatype hmac_algorithm = HS256 | HS384 | HS512

fun hmac_name :: "hmac_algorithm \<Rightarrow> string" where
  "hmac_name HS256 = ''HS256''"
| "hmac_name HS384 = ''HS384''"
| "hmac_name HS512 = ''HS512''"

definition verifyWithSymmetricKey_try ::
  "platform \<Rightarrow> string \<Rightarrow> string \<Rightarrow> hmac_algorithm \<Rightarrow> unit io" where
  "verifyWithSymmetricKey_try env token secretKey algorithm =
     (let secretKeyUint8 = TextEncoder_encode secretKey in
      await (jwtVerify env token (Secret secretKeyUint8)
               \<lparr>algorithms = Some [Str (hmac_name algorithm)], issuer = None\<rparr>) (\<lambda>result.
      await (setVerificationResult (Some
               \<lparr>isValid = True,
                message = ''Token successfully verified with symmetric key'',
                details = Some \<lparr>payload = payload result,
                                 protectedHeader = protectedHeader result\<rparr>\<rparr>)) (\<lambda>u.
      toast_success ''JWT verified successfully'')))"

definition verifyWithSymmetricKey ::
  "platform \<Rightarrow> string \<Rightarrow> string \<Rightarrow> hmac_algorithm \<Rightarrow> unit io" where
  "verifyWithSymmetricKey env token secretKey algorithm =
     await (setIsVerifying True) (\<lambda>u.
     await (setVerificationResult None) (\<lambda>u.
     try_finally
       (try_catch (verifyWithSymmetricKey_try env token secretKey algorithm)
          (\<lambda>error.
             await (setVerificationResult (Some
                      \<lparr>isValid = False,
                       message = catch_message env error ''Verification failed'',
                       details = None\<rparr>)) (\<lambda>u.
             toast_error ''JWT verification failed'')))
       (setIsVerifying False)))"

definition openIdConfigUrl :: "string \<Rightarrow> string" where
  "openIdConfigUrl issuerUrl =
     (if endsWith issuerUrl ''/'' then issuerUrl @ ''.well-known/openid-configuration''
      else issuerUrl @ ''/.well-known/openid-configuration'')"

text \<open>
  \<^verbatim>\<open>keys.find((key) => key.kid === kid)\<close>: the first element that satisfies the test,
  \<^verbatim>\<open>undefined\<close> when there is none; the test itself raises on a \<^verbatim>\<open>null\<close> element.
\<close>

fun find_kid :: "jsval list \<Rightarrow> jsval \<Rightarrow> js_error + jsval" where
  "find_kid [] kid = Inr Undefined"
| "find_kid (key # keys) kid =
     (case get_prop key ''kid'' of
        Inl e \<Rightarrow> Inl e
      | Inr v \<Rightarrow> if strict_equals v kid then Inr key else find_kid keys kid)"

text \<open>
  \<^verbatim>\<open>jwks.keys.find(...)\<close>: when \<^verbatim>\<open>jwks.keys\<close> is not an array the call raises a
  TypeError (\<^verbatim>\<open>find\<close> is read from \<^verbatim>\<open>undefined\<close> or \<^verbatim>\<open>null\<close>, or is not a function).
\<close>

definition jwks_keys_find :: "jsval \<Rightarrow> jsval \<Rightarrow> js_error + jsval" where
  "jwks_keys_find jwks kid =
     (case get_prop jwks ''keys'' of
        Inl e \<Rightarrow> Inl e
      | Inr (Arr keys) \<Rightarrow> find_kid keys kid
      | Inr v \<Rightarrow> Inl TypeError)"

text \<open>
  \<^verbatim>\<open>config.jwks_uri\<close> is typed \<^verbatim>\<open>any\<close>. \<open>fetchWithCorsProxyFallback\<close> uses its
  \<^verbatim>\<open>url\<close> only where a string is required (\<^verbatim>\<open>fetch(url)\<close>,
  \<^verbatim>\<open>encodeURIComponent(url)\<close>, the template literals), so each use converts it. When
  the value has no string conversion, \<^verbatim>\<open>fetch(url)\<close> rejects with the TypeError before
  any request, the \<^verbatim>\<open>catch\<close> block then raises it again in
  \<^verbatim>\<open>encodeURIComponent(url)\<close> (with the flag set, the \<^verbatim>\<open>try\<close> block raises it
  there and the \<^verbatim>\<open>catch\<close> block rethrows), and the call ends with that TypeError and
  no request made. The model therefore converts the value once, before the call.
\<close>

definition verifyWithOpenId_try ::
  "platform \<Rightarrow> string \<Rightarrow> string \<Rightarrow> bool \<Rightarrow> unit io" where
  "verifyWithOpenId_try env token issuerUrl useCorsProxy =
     await (fetchWithCorsProxyFallback env (openIdConfigUrl issuerUrl) useCorsProxy)
       (\<lambda>configResponse.
     await (lift (json configResponse)) (\<lambda>config.
     await (lift (get_prop config ''jwks_uri'')) (\<lambda>jwksUri.
     if \<not> truthy jwksUri then
       io_throw (Error ''JWKS URI not found in OpenID configuration'')
     else
     await (lift (js_String (Number_toString env) jwksUri)) (\<lambda>jwksUrl.
     await (fetchWithCorsProxyFallback env jwksUrl useCorsProxy) (\<lambda>jwksResponse.
     await (lift (json jwksResponse)) (\<lambda>jwks.
     let tokenParts = split token CHR ''.'' in
     await (lift (atob (arg_string (index tokenParts 0)))) (\<lambda>decoded.
     await (lift (JSON_parse env decoded)) (\<lambda>tokenHeader.
     await (lift (get_prop tokenHeader ''kid'')) (\<lambda>kid.
     if \<not> truthy kid then
       io_throw (Error ''Token header does not contain a key ID (kid)'')
     else
     await (lift (jwks_keys_find jwks kid)) (\<lambda>matchingKey.
     if \<not> truthy matchingKey then
       await (lift (js_String (Number_toString env) kid)) (\<lambda>kidText.
       io_throw (Error (''No matching key found for kid: '' @ kidText)))
     else
     let jwksInstanceUrl = (if useCorsProxy then proxyUrl jwksUrl else jwksUrl) in
     await (lift (URL_new env jwksInstanceUrl)) (\<lambda>jwksInstance.
     await (lift (get_prop config ''issuer'')) (\<lambda>configIssuer.
     await (jwtVerify env token (RemoteJWKSet jwksInstance)
              \<lparr>algorithms = None, issuer = Some configIssuer\<rparr>) (\<lambda>result.
     await (setVerificationResult (Some
              \<lparr>isValid = True,
               message = ''Token successfully verified with OpenID provider'',
               details = Some \<lparr>payload = payload result,
                                protectedHeader = protectedHeader result\<rparr>\<rparr>)) (\<lambda>u.
     toast_success ''JWT verified successfully with OpenID provider''))))))))))))))"

definition verifyWithOpenId ::
  "platform \<Rightarrow> string \<Rightarrow> string \<Rightarrow> bool \<Rightarrow> unit io" where
  "verifyWithOpenId env token issuerUrl useCorsProxy =
     await (setIsVerifying True) (\<lambda>u.
     await (setVerificationResult None) (\<lambda>u.
     try_finally
       (try_catch (verifyWithOpenId_try env token issuerUrl useCorsProxy)
          (\<lambda>error.
             await (setVerificationResult (Some
                      \<lparr>isValid = False,
                       message = catch_message env error ''OpenID verification failed'',
                       details = None\<rparr>)) (\<lambda>u.
             toast_error ''JWT verification failed'')))
       (setIsVerifying False)))"

section \<open>jwt-decoder.tsx: decodeJwt\<close>

record decodedJWT =
  jwt_header :: jsval
  jwt_payload :: jsval
  jwt_signature :: "string option"

record decoder =
  jwtToken :: string
  decodedJwt :: decodedJWT
  jwtChanges :: "string list"
  decoderToasts :: "toast list"

definition or_throw :: "js_error + 'a \<Rightarrow> ('a \<Rightarrow> js_error + 'b) \<Rightarrow> js_error + 'b" where
  "or_throw r f = (case r of Inl e \<Rightarrow> Inl e | Inr x \<Rightarrow> f x)"

text \<open>The split and the check of the number of parts.\<close>

definition decodeJwt_parts :: "string \<Rightarrow> js_error + string list" where
  "decodeJwt_parts token =
     (let parts = split token CHR ''.'' in
      if length parts \<noteq> 3 then
        Inl (Error ''Invalid JWT format. Expected three parts separated by dots.'')
      else Inr parts)"

definition decodeJwt_try :: "platform \<Rightarrow> string \<Rightarrow> js_error + decodedJWT" where
  "decodeJwt_try env token =
     or_throw (decodeJwt_parts token) (\<lambda>parts.
     or_throw (atob (arg_string (index parts 0))) (\<lambda>decodedHeader.
     or_throw (JSON_parse env decodedHeader) (\<lambda>header.
     or_throw (atob (arg_string (index parts 1))) (\<lambda>decodedPayload.
     or_throw (JSON_parse env decodedPayload) (\<lambda>payload.
     Inr \<lparr>jwt_header = header, jwt_payload = payload, jwt_signature = index parts 2\<rparr>)))))"

text \<open>
  \<open>onJwtChange\<close> tells whether the optional callback of that name was given; a call of
  it is recorded in \<open>jwtChanges\<close>.
\<close>

definition decodeJwt :: "platform \<Rightarrow> bool \<Rightarrow> decoder \<Rightarrow> decoder" where
  "decodeJwt env onJwtChange st =
     (if trim (jwtToken st) = [] then
        st\<lparr>decoderToasts := decoderToasts st @ [ToastError ''Please enter a JWT token'']\<rparr>
      else
        (case decodeJwt_try env (jwtToken st) of
           Inr decoded \<Rightarrow>
             st\<lparr>decodedJwt := decoded,
                jwtChanges := (if onJwtChange then jwtChanges st @ [jwtToken st]
                               else jwtChanges st),
                decoderToasts := decoderToasts st @ [ToastSuccess ''JWT decoded successfully'']\<rparr>
         | Inl error \<Rightarrow>
             st\<lparr>decoderToasts := decoderToasts st
                  @ [ToastError (catch_message env error ''Failed to decode JWT'')]\<rparr>))"


section \<open>Example platforms and tokens\<close>

text \<open>
  Concrete inputs on which the theorems below are instantiated: an identity provider at
  \<^verbatim>\<open>https://idp.example\<close> whose key set holds the keys \<^verbatim>\<open>k2\<close> and \<^verbatim>\<open>k1\<close>, the same
  provider with a \<^verbatim>\<open>null\<close> entry in its key set, three networks that fail in different
  ways, a \<^verbatim>\<open>JSON.parse\<close> that knows the JSON texts of
  the example tokens, and a jose that accepts one token.
\<close>

definition initial_world :: world where
  "initial_world = \<lparr>events = [], isVerifying = False, verificationResult = None, toasts = []\<rparr>"

definition example_token :: string where
  "example_token = ''eyJhbGciOiJIUzUxMiIsImtpZCI6ImsxIn0.eyJzdWIiOiJ4In0.c2ln''"

definition token_unknown_kid :: string where
  "token_unknown_kid = ''eyJhbGciOiJSUzI1NiIsImtpZCI6Ims5In0.eyJzdWIiOiJ4In0.c2ln''"

definition token_without_kid :: string where
  "token_without_kid = ''eyJ0eXAiOiJKV1QifQ.eyJzdWIiOiJ4In0.c2ln''"

definition token_null_header :: string where
  "token_null_header = ''bnVsbA.eyJzdWIiOiJ4In0.c2ln''"

definition token_object_kid :: string where
  "token_object_kid = ''eyJraWQiOnsidG9TdHJpbmciOjF9fQ.eyJzdWIiOiJ4In0.c2ln''"

definition token_base64url :: string where
  "token_base64url =
     ''eyJhbGciOiJIUzI1NiIsInR5cCI6IkpXVCIsImtpZCI6Imt-MSJ9.eyJzdWIiOiJ4In0.c2ln''"

definition example_JSON_parse :: "string \<Rightarrow> js_error + jsval" where
  "example_JSON_parse text =
     (if text = ''{\"alg\":\"HS512\",\"kid\":\"k1\"}'' then
        Inr (Obj [(''alg'', Str ''HS512''), (''kid'', Str ''k1'')])
      else if text = ''{\"alg\":\"RS256\",\"kid\":\"k9\"}'' then
        Inr (Obj [(''alg'', Str ''RS256''), (''kid'', Str ''k9'')])
      else if text = ''{\"typ\":\"JWT\"}'' then Inr (Obj [(''typ'', Str ''JWT'')])
      else if text = ''{\"sub\":\"x\"}'' then Inr (Obj [(''sub'', Str ''x'')])
      else if text = ''null'' then Inr Null
      else if text = ''{\"kid\":{\"toString\":1}}'' then
        Inr (Obj [(''kid'', Obj [(''toString'', Num 1)])])
      else Inl (Error ''Unexpected token''))"

definition example_jwtVerify ::
  "event list \<Rightarrow> string \<Rightarrow> key_source \<Rightarrow> verify_options \<Rightarrow> js_error + jwtVerifyResult" where
  "example_jwtVerify evs jwt key options =
     (if jwt = example_token then
        Inr \<lparr>payload = Obj [(''sub'', Str ''x'')],
             protectedHeader = Obj [(''alg'', Str ''HS512''), (''kid'', Str ''k1'')]\<rparr>
      else Inl (Error ''signature verification failed''))"

definition config_response :: response where
  "config_response =
     \<lparr>ok = True, statusText = ''OK'',
      json = Inr (Obj [(''issuer'', Str ''https://idp.example''),
                       (''jwks_uri'', Str ''https://idp.example/jwks'')])\<rparr>"

definition jwks_response :: response where
  "jwks_response =
     \<lparr>ok = True, statusText = ''OK'',
      json = Inr (Obj [(''keys'', Arr [Obj [(''kid'', Str ''k2'')], Obj [(''kid'', Str ''k1'')]])])\<rparr>"

definition network_idp :: "event list \<Rightarrow> string \<Rightarrow> js_error + response" where
  "network_idp evs url =
     (if url = ''https://idp.example/.well-known/openid-configuration'' then Inr config_response
      else if url = ''https://idp.example/jwks'' then Inr jwks_response
      else Inl (Error ''Failed to fetch''))"

definition network_null_key :: "event list \<Rightarrow> string \<Rightarrow> js_error + response" where
  "network_null_key evs url =
     (if url = ''https://idp.example/.well-known/openid-configuration'' then Inr config_response
      else if url = ''https://idp.example/jwks'' then
        Inr \<lparr>ok = True, statusText = ''OK'',
             json = Inr (Obj [(''keys'', Arr [Null, Obj [(''kid'', Str ''k1'')]])])\<rparr>
      else Inl (Error ''Failed to fetch''))"

definition network_down :: "event list \<Rightarrow> string \<Rightarrow> js_error + response" where
  "network_down evs url = Inl (Error ''Failed to fetch'')"

definition network_404 :: "event list \<Rightarrow> string \<Rightarrow> js_error + response" where
  "network_404 evs url =
     Inr \<lparr>ok = False, statusText = ''Not Found'', json = Inl (Error ''Unexpected token'')\<rparr>"

definition network_no_jwks_uri :: "event list \<Rightarrow> string \<Rightarrow> js_error + response" where
  "network_no_jwks_uri evs url =
     Inr \<lparr>ok = True, statusText = ''OK'',
          json = Inr (Obj [(''issuer'', Str ''https://idp.example'')])\<rparr>"

definition example_platform :: "(event list \<Rightarrow> string \<Rightarrow> js_error + response) \<Rightarrow> platform" where
  "example_platform net =
     \<lparr>JSON_parse = example_JSON_parse,
      Number_toString = (\<lambda>n. ''0''),
      URL_new = (\<lambda>u. Inr u),
      error_text = (\<lambda>e. ''TypeError''),
      network = net,
      jose_importSPKI = (\<lambda>pem alg. Inr (CryptoKey pem alg)),
      jose_jwtVerify = example_jwtVerify\<rparr>"

section \<open>Basic facts\<close>

subsection \<open>Splitting\<close>

lemma length_split: "length (split s sep) = Suc (count_list s sep)"
  by (induction s) (auto split: list.splits)

lemma index_third: "index (a # b # c # rest) 2 = Some c"
  by (simp add: numeral_2_eq_2)

subsection \<open>The combinators\<close>

lemma await_Inr:
  "(await m f s = (Inr y, s')) = (\<exists>x s1. m s = (Inr x, s1) \<and> f x s1 = (Inr y, s'))"
  by (auto simp: await_def split: prod.splits sum.splits)

lemma await_Inl:
  "(await m f s = (Inl e, s')) =
     (m s = (Inl e, s') \<or> (\<exists>x s1. m s = (Inr x, s1) \<and> f x s1 = (Inl e, s')))"
  by (auto simp: await_def split: prod.splits sum.splits)

lemma lift_eq: "(lift r s = (r', s')) = (r = r' \<and> s' = s)"
  by (auto simp: lift_def)

lemma finish_eq:
  "await (setVerificationResult (Some r)) (\<lambda>u. toast_success m) s =
     (Inr (), s\<lparr>verificationResult := Some r, toasts := toasts s @ [ToastSuccess m]\<rparr>)"
  by (simp add: await_def setVerificationResult_def toast_success_def)

text \<open>The shape every callback has: what the wrapper around a \<^verbatim>\<open>try\<close> block computes.\<close>

lemma wrapper:
  "await (setIsVerifying True) (\<lambda>u.
     await (setVerificationResult None) (\<lambda>u.
     try_finally
       (try_catch body
          (\<lambda>error. await (setVerificationResult (Some (F error))) (\<lambda>u. toast_error m)))
       (setIsVerifying False))) s =
   (case body (s\<lparr>isVerifying := True, verificationResult := None\<rparr>) of
      (Inr x, s1) \<Rightarrow> (Inr x, s1\<lparr>isVerifying := False\<rparr>)
    | (Inl e, s1) \<Rightarrow>
        (Inr (), s1\<lparr>verificationResult := Some (F e),
                     toasts := toasts s1 @ [ToastError m], isVerifying := False\<rparr>))"
  by (simp add: await_def setIsVerifying_def setVerificationResult_def try_finally_def
      try_catch_def toast_error_def split: prod.splits sum.splits)

subsection \<open>The requests of fetchWithCorsProxyFallback\<close>

lemma fetch_frame_cases:
  "snd (fetchWithCorsProxyFallback env url p s) = s\<lparr>events := events s @ [Fetch (proxyUrl url)]\<rparr>
   \<or> snd (fetchWithCorsProxyFallback env url p s) = s\<lparr>events := events s @ [Fetch url]\<rparr>
   \<or> snd (fetchWithCorsProxyFallback env url p s) =
        s\<lparr>events := events s @ [Fetch url, Fetch (proxyUrl url)]\<rparr>
   \<or> snd (fetchWithCorsProxyFallback env url p s) =
        s\<lparr>events := events s @ [Fetch url, Fetch (proxyUrl url), Fetch (proxyUrl url)]\<rparr>"
  by (simp add: fetchWithCorsProxyFallback_def try_catch_def await_def fetch_def io_throw_def
      io_return_def Let_def split: sum.splits prod.splits)

lemma fetch_frame:
  "\<exists>F. snd (fetchWithCorsProxyFallback env url p s) = s\<lparr>events := events s @ map Fetch F\<rparr>
       \<and> F \<noteq> [] \<and> set F \<subseteq> {url, proxyUrl url}"
proof -
  consider
    (a) "snd (fetchWithCorsProxyFallback env url p s) =
           s\<lparr>events := events s @ map Fetch [proxyUrl url]\<rparr>"
  | (b) "snd (fetchWithCorsProxyFallback env url p s) = s\<lparr>events := events s @ map Fetch [url]\<rparr>"
  | (c) "snd (fetchWithCorsProxyFallback env url p s) =
           s\<lparr>events := events s @ map Fetch [url, proxyUrl url]\<rparr>"
  | (d) "snd (fetchWithCorsProxyFallback env url p s) =
           s\<lparr>events := events s @ map Fetch [url, proxyUrl url, proxyUrl url]\<rparr>"
    using fetch_frame_cases [of env url p s] by auto
  then show ?thesis
  proof cases
    case a then show ?thesis by (intro exI [of _ "[proxyUrl url]"]) simp
  next
    case b then show ?thesis by (intro exI [of _ "[url]"]) simp
  next
    case c then show ?thesis by (intro exI [of _ "[url, proxyUrl url]"]) simp
  next
    case d then show ?thesis by (intro exI [of _ "[url, proxyUrl url, proxyUrl url]"]) simp
  qed
qed

lemma fetch_ok: "fetchWithCorsProxyFallback env url useCorsProxy s = (Inr r, s') \<Longrightarrow> ok r"
  by (auto simp: fetchWithCorsProxyFallback_def try_catch_def await_def fetch_def io_throw_def
      io_return_def Let_def split: if_splits sum.splits prod.splits)

subsection \<open>The try blocks\<close>

lemma sym_success:
  "verifyWithSymmetricKey_try env t k a s = (Inr u, s') \<Longrightarrow>
     \<exists>m d. verificationResult s' = Some \<lparr>isValid = True, message = m, details = Some d\<rparr>"
  by (auto simp: verifyWithSymmetricKey_try_def Let_def await_Inr finish_eq)

lemma sym_failure:
  "verifyWithSymmetricKey_try env t k a s = (Inl e, s') \<Longrightarrow>
     verificationResult s' = verificationResult s"
  by (auto simp: verifyWithSymmetricKey_try_def Let_def await_Inl finish_eq jwtVerify_def)

lemma asym_success:
  "verifyWithAsymmetricKey_try env t k a s = (Inr u, s') \<Longrightarrow>
     \<exists>m d. verificationResult s' = Some \<lparr>isValid = True, message = m, details = Some d\<rparr>"
  by (auto simp: verifyWithAsymmetricKey_try_def Let_def await_Inr finish_eq)

lemma openid_success:
  "verifyWithOpenId_try env t i p s = (Inr u, s') \<Longrightarrow>
     \<exists>m d. verificationResult s' = Some \<lparr>isValid = True, message = m, details = Some d\<rparr>"
  by (auto simp: verifyWithOpenId_try_def Let_def await_Inr finish_eq io_throw_def split: if_splits)

text \<open>
  The events of the \<^verbatim>\<open>try\<close> block of the OpenID flow, stage by stage: when the
  discovery step does not deliver a usable \<^verbatim>\<open>jwks_uri\<close>; when it does; and when every
  step up to the call of \<^verbatim>\<open>jwtVerify\<close> succeeds.
\<close>

lemma openid_try_discovery_failed:
  assumes "fetchWithCorsProxyFallback env (openIdConfigUrl issuerUrl) p s0 = (r1, s1)"
    and "\<not> (\<exists>cr config ju jwksUrl. r1 = Inr cr \<and> json cr = Inr config
              \<and> get_prop config ''jwks_uri'' = Inr ju \<and> truthy ju
              \<and> js_String (Number_toString env) ju = Inr jwksUrl)"
  shows "events (snd (verifyWithOpenId_try env token issuerUrl p s0)) = events s1"
proof (cases r1)
  case (Inl e)
  then show ?thesis by (simp add: verifyWithOpenId_try_def await_def assms(1))
next
  case cr: (Inr cr)
  show ?thesis
  proof (cases "json cr")
    case (Inl e)
    then show ?thesis by (simp add: verifyWithOpenId_try_def await_def lift_def assms(1) cr)
  next
    case config: (Inr config)
    show ?thesis
    proof (cases "get_prop config ''jwks_uri''")
      case (Inl e)
      then show ?thesis
        by (simp add: verifyWithOpenId_try_def await_def lift_def assms(1) cr config)
    next
      case ju: (Inr ju)
      show ?thesis
      proof (cases "truthy ju")
        case False
        then show ?thesis
          by (simp add: verifyWithOpenId_try_def await_def lift_def io_throw_def assms(1) cr
              config ju)
      next
        case True
        with assms(2) cr config ju obtain e where "js_String (Number_toString env) ju = Inl e"
          by (cases "js_String (Number_toString env) ju") auto
        with True show ?thesis
          by (simp add: verifyWithOpenId_try_def await_def lift_def assms(1) cr config ju)
      qed
    qed
  qed
qed

lemma openid_try_after_discovery:
  assumes "fetchWithCorsProxyFallback env (openIdConfigUrl issuerUrl) p s0 = (Inr cr, s1)"
    and "json cr = Inr config"
    and "get_prop config ''jwks_uri'' = Inr ju"
    and "truthy ju"
    and "js_String (Number_toString env) ju = Inr jwksUrl"
    and "fetchWithCorsProxyFallback env jwksUrl p s1 = (r2, s2)"
  shows "events (snd (verifyWithOpenId_try env token issuerUrl p s0)) = events s2
     \<or> (\<exists>jr u iss. r2 = Inr jr
           \<and> URL_new env (if p then proxyUrl jwksUrl else jwksUrl) = Inr u
           \<and> get_prop config ''issuer'' = Inr iss
           \<and> events (snd (verifyWithOpenId_try env token issuerUrl p s0)) =
               events s2 @ [JwtVerify token (RemoteJWKSet u)
                              \<lparr>algorithms = None, issuer = Some iss\<rparr>])"
  by (cases r2)
    (auto simp: verifyWithOpenId_try_def await_def lift_def io_throw_def assms Let_def
      jwtVerify_def setVerificationResult_def toast_success_def
      split: sum.splits if_splits)

lemma openid_try_verify_call:
  assumes "fetchWithCorsProxyFallback env (openIdConfigUrl issuerUrl) p s0 = (Inr cr, s1)"
    and "json cr = Inr config"
    and "get_prop config ''jwks_uri'' = Inr ju"
    and "truthy ju"
    and "js_String (Number_toString env) ju = Inr jwksUrl"
    and "fetchWithCorsProxyFallback env jwksUrl p s1 = (Inr jr, s2)"
    and "json jr = Inr jwks"
    and "atob (arg_string (index (split token CHR ''.'') 0)) = Inr decoded"
    and "JSON_parse env decoded = Inr tokenHeader"
    and "get_prop tokenHeader ''kid'' = Inr kid"
    and "truthy kid"
    and "jwks_keys_find jwks kid = Inr matchingKey"
    and "truthy matchingKey"
    and "URL_new env (if p then proxyUrl jwksUrl else jwksUrl) = Inr jwksInstance"
    and "get_prop config ''issuer'' = Inr configIssuer"
  shows "events (snd (verifyWithOpenId_try env token issuerUrl p s0)) =
     events s2 @ [JwtVerify token (RemoteJWKSet jwksInstance)
                    \<lparr>algorithms = None, issuer = Some configIssuer\<rparr>]"
  by (cases "jose_jwtVerify env (events s2) token (RemoteJWKSet jwksInstance)
               \<lparr>algorithms = None, issuer = Some configIssuer\<rparr>")
    (simp_all add: verifyWithOpenId_try_def await_def lift_def assms Let_def
      jwtVerify_def setVerificationResult_def toast_success_def)

subsection \<open>Evaluation on the examples\<close>

lemmas base64_eval =
  atob_def strip_padding_def is_ascii_whitespace_def base64_value_def arg_string_def
  char_of_def bit_Suc_0_iff

lemmas io_eval =
  await_def lift_def io_throw_def io_return_def try_catch_def try_finally_def fetch_def
  importSPKI_def jwtVerify_def setIsVerifying_def setVerificationResult_def toast_success_def
  toast_error_def catch_message_def Let_def

lemmas uri_eval =
  proxyUrl_def encodeURIComponent_def uri_unreserved_def utf8_unit_def percent_byte_def
  hex_digit_def char_of_def bit_Suc_0_iff

lemmas example_eval =
  example_platform_def example_JSON_parse_def example_jwtVerify_def network_idp_def
  network_down_def network_404_def network_no_jwks_uri_def network_null_key_def
  config_response_def
  jwks_response_def initial_world_def openIdConfigUrl_def endsWith_def jwks_keys_find_def

lemma example_token_header:
  "atob (arg_string (index (split example_token CHR ''.'') 0)) =
     Inr ''{\"alg\":\"HS512\",\"kid\":\"k1\"}''"
  by (simp add: example_token_def base64_eval)

lemma token_unknown_kid_header:
  "atob (arg_string (index (split token_unknown_kid CHR ''.'') 0)) =
     Inr ''{\"alg\":\"RS256\",\"kid\":\"k9\"}''"
  by (simp add: token_unknown_kid_def base64_eval)

lemma token_without_kid_header:
  "atob (arg_string (index (split token_without_kid CHR ''.'') 0)) = Inr ''{\"typ\":\"JWT\"}''"
  by (simp add: token_without_kid_def base64_eval)


lemma token_null_header_header:
  "atob (arg_string (index (split token_null_header CHR ''.'') 0)) = Inr ''null''"
  by (simp add: token_null_header_def base64_eval)

lemma token_object_kid_header:
  "atob (arg_string (index (split token_object_kid CHR ''.'') 0)) =
     Inr ''{\"kid\":{\"toString\":1}}''"
  by (simp add: token_object_kid_def base64_eval)

subsection \<open>The events of the three callbacks\<close>

lemma wrapper_events:
  "events (snd ((await (setIsVerifying True) (\<lambda>u.
     await (setVerificationResult None) (\<lambda>u.
     try_finally
       (try_catch body
          (\<lambda>error. await (setVerificationResult (Some (F error))) (\<lambda>u. toast_error m)))
       (setIsVerifying False)))) s)) =
   events (snd (body (s\<lparr>isVerifying := True, verificationResult := None\<rparr>)))"
  by (simp add: wrapper split: prod.splits sum.splits)

lemma asym_try_events:
  assumes "atob (arg_string (index (split token CHR ''.'') 0)) = Inr decoded"
    and "JSON_parse env decoded = Inr tokenHeader"
    and "truthy (optional algorithm) \<or> get_prop tokenHeader ''alg'' = Inr headerAlg"
    and "alg = (if truthy (optional algorithm) then optional algorithm
                else if truthy headerAlg then headerAlg else Str ''RS256'')"
  shows "events (snd (verifyWithAsymmetricKey_try env token publicKey algorithm s)) =
     events s @ ImportSPKI publicKey alg #
       (case jose_importSPKI env publicKey alg of
          Inl e \<Rightarrow> []
        | Inr key \<Rightarrow> [JwtVerify token (KeyObject key) \<lparr>algorithms = Some [alg], issuer = None\<rparr>])"
proof -
  have alg: "(if truthy (optional algorithm) then io_return (optional algorithm)
            else await (lift (get_prop tokenHeader ''alg'')) (\<lambda>headerAlg.
                   io_return (if truthy headerAlg then headerAlg else Str ''RS256''))) s
       = (Inr alg, s)"
    using assms(3,4)
    by (cases "truthy (optional algorithm)") (simp_all add: await_def lift_def io_return_def)
  show ?thesis
  proof (cases "jose_importSPKI env publicKey alg")
    case (Inl e)
    then show ?thesis
      by (simp add: verifyWithAsymmetricKey_try_def assms(1,2) alg await_def lift_def
          importSPKI_def)
  next
    case (Inr key)
    then show ?thesis
      by (cases "jose_jwtVerify env (events s @ [ImportSPKI publicKey alg]) token (KeyObject key)
            \<lparr>algorithms = Some [alg], issuer = None\<rparr>")
        (simp_all add: verifyWithAsymmetricKey_try_def assms(1,2) alg await_def lift_def
          importSPKI_def jwtVerify_def setVerificationResult_def toast_success_def)
  qed
qed


lemma asym_events:
  assumes "atob (arg_string (index (split token CHR ''.'') 0)) = Inr decoded"
    and "JSON_parse env decoded = Inr tokenHeader"
    and "truthy (optional algorithm) \<or> get_prop tokenHeader ''alg'' = Inr headerAlg"
    and "alg = (if truthy (optional algorithm) then optional algorithm
                else if truthy headerAlg then headerAlg else Str ''RS256'')"
  shows "events (snd (verifyWithAsymmetricKey env token publicKey algorithm s)) =
     events s @ ImportSPKI publicKey alg #
       (case jose_importSPKI env publicKey alg of
          Inl e \<Rightarrow> []
        | Inr key \<Rightarrow> [JwtVerify token (KeyObject key) \<lparr>algorithms = Some [alg], issuer = None\<rparr>])"
  unfolding verifyWithAsymmetricKey_def wrapper_events
  using asym_try_events [OF assms] by simp


lemma sym_events:
  "events (snd (verifyWithSymmetricKey env token secretKey hmac s)) =
     events s @ [JwtVerify token (Secret (TextEncoder_encode secretKey))
                   \<lparr>algorithms = Some [Str (hmac_name hmac)], issuer = None\<rparr>]"
  unfolding verifyWithSymmetricKey_def wrapper_events
  by (cases "jose_jwtVerify env (events s) token (Secret (TextEncoder_encode secretKey))
               \<lparr>algorithms = Some [Str (hmac_name hmac)], issuer = None\<rparr>")
    (simp_all add: verifyWithSymmetricKey_try_def await_def jwtVerify_def
       setVerificationResult_def toast_success_def)


lemma openid_events:
  "events (snd (verifyWithOpenId env token issuerUrl useCorsProxy s)) =
     events (snd (verifyWithOpenId_try env token issuerUrl useCorsProxy
                    (s\<lparr>isVerifying := True, verificationResult := None\<rparr>)))"
  unfolding verifyWithOpenId_def wrapper_events by simp

text \<open>
  The same stages for the callback itself, which starts its \<^verbatim>\<open>try\<close> block in the state
  left by \<^verbatim>\<open>setIsVerifying(true); setVerificationResult(null)\<close>.
\<close>

lemma openid_verify_call:
  assumes "fst (fetchWithCorsProxyFallback env (openIdConfigUrl issuerUrl) useCorsProxy
             (s\<lparr>isVerifying := True, verificationResult := None\<rparr>)) = Inr cr"
    and "json cr = Inr config"
    and "get_prop config ''jwks_uri'' = Inr ju"
    and "truthy ju"
    and "js_String (Number_toString env) ju = Inr jwksUrl"
    and "fst (fetchWithCorsProxyFallback env jwksUrl useCorsProxy
           (snd (fetchWithCorsProxyFallback env (openIdConfigUrl issuerUrl) useCorsProxy
                  (s\<lparr>isVerifying := True, verificationResult := None\<rparr>)))) = Inr jr"
    and "json jr = Inr jwks"
    and "atob (arg_string (index (split token CHR ''.'') 0)) = Inr decoded"
    and "JSON_parse env decoded = Inr tokenHeader"
    and "get_prop tokenHeader ''kid'' = Inr kid"
    and "truthy kid"
    and "jwks_keys_find jwks kid = Inr matchingKey"
    and "truthy matchingKey"
    and "URL_new env (if useCorsProxy then proxyUrl jwksUrl else jwksUrl) = Inr jwksInstance"
    and "get_prop config ''issuer'' = Inr configIssuer"
  shows "events (snd (verifyWithOpenId env token issuerUrl useCorsProxy s)) =
     events (snd (fetchWithCorsProxyFallback env jwksUrl useCorsProxy
                    (snd (fetchWithCorsProxyFallback env (openIdConfigUrl issuerUrl) useCorsProxy
                           (s\<lparr>isVerifying := True, verificationResult := None\<rparr>)))))
     @ [JwtVerify token (RemoteJWKSet jwksInstance)
          \<lparr>algorithms = None, issuer = Some configIssuer\<rparr>]"
proof -
  let ?s0 = "s\<lparr>isVerifying := True, verificationResult := None\<rparr>"
  obtain s1 where r1: "fetchWithCorsProxyFallback env (openIdConfigUrl issuerUrl) useCorsProxy ?s0
      = (Inr cr, s1)"
    using assms(1) by (metis prod.collapse)
  obtain s2 where r2: "fetchWithCorsProxyFallback env jwksUrl useCorsProxy s1 = (Inr jr, s2)"
    using assms(6) r1 by (metis prod.collapse snd_conv)
  from openid_try_verify_call [OF r1 assms(2-5) r2 assms(7-15)]
  show ?thesis by (simp add: openid_events r1 r2)
qed

lemma openid_discovery_requests:
  "\<exists>D. D \<noteq> []
     \<and> set D \<subseteq> {openIdConfigUrl issuerUrl, proxyUrl (openIdConfigUrl issuerUrl)}
     \<and> events (snd (fetchWithCorsProxyFallback env (openIdConfigUrl issuerUrl) useCorsProxy
                      (s\<lparr>isVerifying := True, verificationResult := None\<rparr>))) =
         events s @ map Fetch D"
  using fetch_frame [of env "openIdConfigUrl issuerUrl" useCorsProxy
      "s\<lparr>isVerifying := True, verificationResult := None\<rparr>"]
  by auto

lemma openid_discovery_failed:
  assumes "\<not> (\<exists>cr config ju jwksUrl.
             fst (fetchWithCorsProxyFallback env (openIdConfigUrl issuerUrl) useCorsProxy
                    (s\<lparr>isVerifying := True, verificationResult := None\<rparr>)) = Inr cr
             \<and> json cr = Inr config \<and> get_prop config ''jwks_uri'' = Inr ju \<and> truthy ju
             \<and> js_String (Number_toString env) ju = Inr jwksUrl)"
  shows "events (snd (verifyWithOpenId env token issuerUrl useCorsProxy s)) =
     events (snd (fetchWithCorsProxyFallback env (openIdConfigUrl issuerUrl) useCorsProxy
                    (s\<lparr>isVerifying := True, verificationResult := None\<rparr>)))"
proof -
  let ?s0 = "s\<lparr>isVerifying := True, verificationResult := None\<rparr>"
  obtain r1 s1 where r1: "fetchWithCorsProxyFallback env (openIdConfigUrl issuerUrl) useCorsProxy
      ?s0 = (r1, s1)"
    by (cases "fetchWithCorsProxyFallback env (openIdConfigUrl issuerUrl) useCorsProxy ?s0") simp
  from assms r1
  have "\<not> (\<exists>cr config ju jwksUrl. r1 = Inr cr \<and> json cr = Inr config
              \<and> get_prop config ''jwks_uri'' = Inr ju \<and> truthy ju
              \<and> js_String (Number_toString env) ju = Inr jwksUrl)"
    by simp
  from openid_try_discovery_failed [OF r1 this]
  show ?thesis by (simp add: openid_events r1)
qed

lemma openid_after_discovery:
  assumes "fst (fetchWithCorsProxyFallback env (openIdConfigUrl issuerUrl) useCorsProxy
             (s\<lparr>isVerifying := True, verificationResult := None\<rparr>)) = Inr cr"
    and "json cr = Inr config"
    and "get_prop config ''jwks_uri'' = Inr ju"
    and "truthy ju"
    and "js_String (Number_toString env) ju = Inr jwksUrl"
  shows "\<exists>J V. J \<noteq> [] \<and> set J \<subseteq> {jwksUrl, proxyUrl jwksUrl}
     \<and> events (snd (fetchWithCorsProxyFallback env jwksUrl useCorsProxy
                      (snd (fetchWithCorsProxyFallback env (openIdConfigUrl issuerUrl) useCorsProxy
                             (s\<lparr>isVerifying := True, verificationResult := None\<rparr>))))) =
         events (snd (fetchWithCorsProxyFallback env (openIdConfigUrl issuerUrl) useCorsProxy
                        (s\<lparr>isVerifying := True, verificationResult := None\<rparr>)))
         @ map Fetch J
     \<and> events (snd (verifyWithOpenId env token issuerUrl useCorsProxy s)) =
         events (snd (fetchWithCorsProxyFallback env jwksUrl useCorsProxy
                        (snd (fetchWithCorsProxyFallback env (openIdConfigUrl issuerUrl)
                               useCorsProxy
                               (s\<lparr>isVerifying := True, verificationResult := None\<rparr>)))))
         @ V
     \<and> (V = [] \<or>
          (\<exists>jr jwksInstance configIssuer.
             fst (fetchWithCorsProxyFallback env jwksUrl useCorsProxy
                    (snd (fetchWithCorsProxyFallback env (openIdConfigUrl issuerUrl) useCorsProxy
                           (s\<lparr>isVerifying := True, verificationResult := None\<rparr>)))) = Inr jr
             \<and> ok jr
             \<and> URL_new env (if useCorsProxy then proxyUrl jwksUrl else jwksUrl) = Inr jwksInstance
             \<and> get_prop config ''issuer'' = Inr configIssuer
             \<and> V = [JwtVerify token (RemoteJWKSet jwksInstance)
                       \<lparr>algorithms = None, issuer = Some configIssuer\<rparr>]))"
proof -
  let ?s0 = "s\<lparr>isVerifying := True, verificationResult := None\<rparr>"
  let ?run = "verifyWithOpenId env token issuerUrl useCorsProxy s"
  obtain s1 where r1: "fetchWithCorsProxyFallback env (openIdConfigUrl issuerUrl) useCorsProxy ?s0
      = (Inr cr, s1)"
    using assms(1) by (metis prod.collapse)
  obtain r2 s2 where r2: "fetchWithCorsProxyFallback env jwksUrl useCorsProxy s1 = (r2, s2)"
    by (cases "fetchWithCorsProxyFallback env jwksUrl useCorsProxy s1") simp
  from fetch_frame [of env jwksUrl useCorsProxy s1] r2
  obtain J where J: "s2 = s1\<lparr>events := events s1 @ map Fetch J\<rparr>" "J \<noteq> []"
    "set J \<subseteq> {jwksUrl, proxyUrl jwksUrl}"
    by auto
  have okjr: "ok jr" if "r2 = Inr jr" for jr using r2 that fetch_ok by blast
  from openid_try_after_discovery [OF r1 assms(2-5) r2, of token]
  consider (stop) "events (snd ?run) = events s2"
    | (verify) jr u iss where "r2 = Inr jr"
        "URL_new env (if useCorsProxy then proxyUrl jwksUrl else jwksUrl) = Inr u"
        "get_prop config ''issuer'' = Inr iss"
        "events (snd ?run) = events s2 @ [JwtVerify token (RemoteJWKSet u)
                              \<lparr>algorithms = None, issuer = Some iss\<rparr>]"
    unfolding openid_events by blast
  then show ?thesis
  proof cases
    case stop
    then show ?thesis
      using J by (intro exI [of _ J] exI [of _ "[]"]) (simp add: r1 r2)
  next
    case verify
    then show ?thesis
      using J okjr [OF verify(1)]
      by (intro exI [of _ J] exI [of _ "[JwtVerify token (RemoteJWKSet u)
                              \<lparr>algorithms = None, issuer = Some iss\<rparr>]"]) (simp add: r1 r2)
  qed
qed

subsection \<open>The scan of the key set\<close>

lemma find_kid_none:
  "\<forall>key \<in> set keys. \<exists>v. get_prop key ''kid'' = Inr v \<and> \<not> strict_equals v kid \<Longrightarrow>
     find_kid keys kid = Inr Undefined"
  by (induction keys) auto

lemma find_kid_first:
  "\<forall>k \<in> set before. \<exists>v. get_prop k ''kid'' = Inr v \<and> \<not> strict_equals v kid \<Longrightarrow>
   get_prop key ''kid'' = Inr v \<Longrightarrow> strict_equals v kid \<Longrightarrow>
     find_kid (before @ key # after) kid = Inr key"
  by (induction before) auto

subsection \<open>atob and the URL-safe alphabet\<close>

lemma those_None: "None \<in> set xs \<Longrightarrow> those xs = None"
  by (induction xs) (auto split: option.splits)

lemma strip_padding_keeps:
  assumes "c \<in> set d" and "c \<noteq> CHR ''=''"
  shows "c \<in> set (strip_padding d)"
proof -
  have keep: "c \<in> set (take n d)" if "set (drop n d) \<subseteq> {CHR ''=''}" for n
  proof -
    have "set d = set (take n d) \<union> set (drop n d)"
      by (metis append_take_drop_id set_append)
    with assms that show ?thesis by auto
  qed
  show ?thesis
    unfolding strip_padding_def using assms(1) by (auto intro!: keep)
qed

text \<open>Whatever else a segment holds, one \<^verbatim>\<open>-\<close> or \<^verbatim>\<open>_\<close> in it makes \<^verbatim>\<open>atob\<close> fail.\<close>

lemma atob_rejects_url_safe_characters:
  assumes "CHR ''-'' \<in> set data \<or> CHR ''_'' \<in> set data"
  shows "atob data = Inl InvalidCharacterError"
proof -
  from assms obtain c where c: "c \<in> set data" "c = CHR ''-'' \<or> c = CHR ''_''" by blast
  let ?d = "strip_padding (filter (\<lambda>c. \<not> is_ascii_whitespace c) data)"
  from c have "c \<in> set (filter (\<lambda>c. \<not> is_ascii_whitespace c) data)"
    by (auto simp: is_ascii_whitespace_def)
  with c(2) have "c \<in> set ?d" by (auto intro: strip_padding_keeps)
  moreover from c(2) have "base64_value c = None" by (auto simp: base64_value_def)
  ultimately have "None \<in> set (map base64_value ?d)" by force
  then have "those (map base64_value ?d) = None" by (rule those_None)
  then show ?thesis by (simp add: atob_def Let_def)
qed

subsection \<open>The example provider\<close>

lemma idp_config_fetch:
  "fetchWithCorsProxyFallback (example_platform network_idp) (openIdConfigUrl ''https://idp.example'')
     False (initial_world\<lparr>isVerifying := True, verificationResult := None\<rparr>) =
     (Inr config_response,
      initial_world\<lparr>isVerifying := True,
        events := [Fetch ''https://idp.example/.well-known/openid-configuration'']\<rparr>)"
  by (simp add: fetchWithCorsProxyFallback_def io_eval example_platform_def network_idp_def
      initial_world_def openIdConfigUrl_def endsWith_def config_response_def)

lemma idp_jwks_fetch:
  "fetchWithCorsProxyFallback (example_platform network_idp)
     ''https://idp.example/jwks'' False
     (initial_world\<lparr>isVerifying := True,
        events := [Fetch ''https://idp.example/.well-known/openid-configuration'']\<rparr>) =
     (Inr jwks_response,
      initial_world\<lparr>isVerifying := True,
        events := [Fetch ''https://idp.example/.well-known/openid-configuration'',
                   Fetch ''https://idp.example/jwks'']\<rparr>)"
  by (simp add: fetchWithCorsProxyFallback_def io_eval example_platform_def network_idp_def
      initial_world_def jwks_response_def)

lemma idp_config_json:
  "json config_response = Inr (Obj [(''issuer'', Str ''https://idp.example''),
                                    (''jwks_uri'', Str ''https://idp.example/jwks'')])"
  by (simp add: config_response_def)

lemma idp_jwks_json:
  "json jwks_response =
     Inr (Obj [(''keys'', Arr [Obj [(''kid'', Str ''k2'')], Obj [(''kid'', Str ''k1'')]])])"
  by (simp add: jwks_response_def)

lemma idp_fetched:
  "fst (fetchWithCorsProxyFallback (example_platform network_idp)
          (openIdConfigUrl ''https://idp.example'') False
          (initial_world\<lparr>isVerifying := True, verificationResult := None\<rparr>)) = Inr config_response"
  "fst (fetchWithCorsProxyFallback (example_platform network_idp) ''https://idp.example/jwks'' False
          (snd (fetchWithCorsProxyFallback (example_platform network_idp)
                  (openIdConfigUrl ''https://idp.example'') False
                  (initial_world\<lparr>isVerifying := True, verificationResult := None\<rparr>)))) =
     Inr jwks_response"
  "events (snd (fetchWithCorsProxyFallback (example_platform network_idp)
          (openIdConfigUrl ''https://idp.example'') False
          (initial_world\<lparr>isVerifying := True, verificationResult := None\<rparr>))) =
     [Fetch ''https://idp.example/.well-known/openid-configuration'']"
  "events (snd (fetchWithCorsProxyFallback (example_platform network_idp) ''https://idp.example/jwks'' False
          (snd (fetchWithCorsProxyFallback (example_platform network_idp)
                  (openIdConfigUrl ''https://idp.example'') False
                  (initial_world\<lparr>isVerifying := True, verificationResult := None\<rparr>))))) =
     [Fetch ''https://idp.example/.well-known/openid-configuration'',
      Fetch ''https://idp.example/jwks'']"
  by (simp_all add: idp_config_fetch idp_jwks_fetch)


section \<open>The claims\<close>

subsection \<open>Splitting the token\<close>

text \<open>
  C4, as stated, at the token \<^verbatim>\<open>a..b\<close>: the split gives three parts, the middle one
  empty, so the parts are not three non-empty parts; yet the check of the number of parts
  does not fail. A token whose third part is empty is even decoded as a whole.
\<close>

theorem decodeJwt_parts_without_empty_check:
  "decodeJwt_parts ''a..b'' = Inr [''a'', [], ''b'']
   \<and> \<not> (length (split ''a..b'' CHR ''.'') = 3 \<and> [] \<notin> set (split ''a..b'' CHR ''.''))
   \<and> decodeJwt_try (example_platform network_down) ''eyJ0eXAiOiJKV1QifQ.eyJzdWIiOiJ4In0.'' =
       Inr \<lparr>jwt_header = Obj [(''typ'', Str ''JWT'')], jwt_payload = Obj [(''sub'', Str ''x'')],
            jwt_signature = Some []\<rparr>"
  by (simp add: decodeJwt_parts_def decodeJwt_try_def or_throw_def base64_eval example_eval
      index_third)

text \<open>
  C4, amended: for every input string the split check of \<open>decodeJwt\<close> fails with the
  format error if and only if splitting on the dot does not give exactly three parts, empty
  or not; it succeeds if and only if there are exactly three parts; and there are exactly
  three parts if and only if the string has exactly two dots. So \<open>decodeJwt\<close>, given a
  token that is not blank and does not have exactly two dots, reports the format error.
\<close>

theorem decodeJwt_parts_fails_iff_not_three_parts:
  "(decodeJwt_parts token =
      Inl (Error ''Invalid JWT format. Expected three parts separated by dots.''))
     = (length (split token CHR ''.'') \<noteq> 3)
   \<and> (\<exists>parts. decodeJwt_parts token = Inr parts) = (length (split token CHR ''.'') = 3)
   \<and> (length (split token CHR ''.'') = 3) = (count_list token CHR ''.'' = 2)
   \<and> (trim (jwtToken st) \<noteq> [] \<and> count_list (jwtToken st) CHR ''.'' \<noteq> 2 \<longrightarrow>
        decodeJwt env onJwtChange st =
          st\<lparr>decoderToasts := decoderToasts st
               @ [ToastError ''Invalid JWT format. Expected three parts separated by dots.'']\<rparr>)"
  by (simp add: decodeJwt_def decodeJwt_try_def decodeJwt_parts_def or_throw_def length_split
      catch_message_def)

text \<open>C4, amended, at the token \<^verbatim>\<open>not-a-jwt\<close>, which has no dot.\<close>

theorem decodeJwt_parts_fails_iff_not_three_parts_witness:
  "trim ''not-a-jwt'' \<noteq> [] \<and> count_list ''not-a-jwt'' CHR ''.'' \<noteq> 2
   \<and> decodeJwt (example_platform network_down) True
        \<lparr>jwtToken = ''not-a-jwt'',
         decodedJwt = \<lparr>jwt_header = Null, jwt_payload = Null, jwt_signature = None\<rparr>,
         jwtChanges = [], decoderToasts = []\<rparr> =
       \<lparr>jwtToken = ''not-a-jwt'',
        decodedJwt = \<lparr>jwt_header = Null, jwt_payload = Null, jwt_signature = None\<rparr>,
        jwtChanges = [],
        decoderToasts =
          [ToastError ''Invalid JWT format. Expected three parts separated by dots.'']\<rparr>"
proof -
  have a: "trim ''not-a-jwt'' \<noteq> []" by (simp add: trim_def is_white_space_def)
  have b: "count_list ''not-a-jwt'' CHR ''.'' \<noteq> 2" by simp
  from decodeJwt_parts_fails_iff_not_three_parts [where st = "\<lparr>jwtToken = ''not-a-jwt'',
         decodedJwt = \<lparr>jwt_header = Null, jwt_payload = Null, jwt_signature = None\<rparr>,
         jwtChanges = [], decoderToasts = []\<rparr>" and env = "example_platform network_down"
         and onJwtChange = True] a b
  show ?thesis by simp
qed

subsection \<open>What fetchWithCorsProxyFallback returns\<close>

text \<open>
  C10: for every URL and every value of the proxy flag, a response that
  \<open>fetchWithCorsProxyFallback\<close> returns has \<^verbatim>\<open>ok\<close> true; in every other case the
  function throws.
\<close>

theorem fetchWithCorsProxyFallback_returns_ok:
  "fetchWithCorsProxyFallback env url useCorsProxy s = (Inr response, s') \<Longrightarrow> ok response"
  by (rule fetch_ok)

text \<open>C10 on the example provider: the direct request for the key set is answered.\<close>

theorem fetchWithCorsProxyFallback_returns_ok_witness:
  "fetchWithCorsProxyFallback (example_platform network_idp) ''https://idp.example/jwks'' False
     initial_world =
     (Inr jwks_response, initial_world\<lparr>events := [Fetch ''https://idp.example/jwks'']\<rparr>)
   \<and> ok jwks_response"
proof -
  have run: "fetchWithCorsProxyFallback (example_platform network_idp)
      ''https://idp.example/jwks'' False initial_world =
      (Inr jwks_response, initial_world\<lparr>events := [Fetch ''https://idp.example/jwks'']\<rparr>)"
    by (simp add: fetchWithCorsProxyFallback_def io_eval example_eval)
  from fetchWithCorsProxyFallback_returns_ok [OF run] run show ?thesis by simp
qed

subsection \<open>The verification result\<close>

text \<open>
  C7: each of the three callbacks leaves a verification result, and in it the details
  (payload and protected header) are present if and only if \<^verbatim>\<open>isValid\<close> is true.
\<close>

theorem details_present_iff_valid:
  "(\<exists>r. verificationResult (snd (verifyWithAsymmetricKey env token publicKey algorithm s)) = Some r
        \<and> (details r \<noteq> None) = isValid r)
   \<and> (\<exists>r. verificationResult (snd (verifyWithSymmetricKey env token secretKey hmac s)) = Some r
        \<and> (details r \<noteq> None) = isValid r)
   \<and> (\<exists>r. verificationResult (snd (verifyWithOpenId env token issuerUrl useCorsProxy s)) = Some r
        \<and> (details r \<noteq> None) = isValid r)"
proof (intro conjI)
  let ?s0 = "s\<lparr>isVerifying := True, verificationResult := None\<rparr>"
  show "\<exists>r. verificationResult (snd (verifyWithAsymmetricKey env token publicKey algorithm s)) = Some r
        \<and> (details r \<noteq> None) = isValid r"
    unfolding verifyWithAsymmetricKey_def wrapper
    by (cases "verifyWithAsymmetricKey_try env token publicKey algorithm ?s0")
      (auto split: sum.splits dest: asym_success)
  show "\<exists>r. verificationResult (snd (verifyWithSymmetricKey env token secretKey hmac s)) = Some r
        \<and> (details r \<noteq> None) = isValid r"
    unfolding verifyWithSymmetricKey_def wrapper
    by (cases "verifyWithSymmetricKey_try env token secretKey hmac ?s0")
      (auto split: sum.splits dest: sym_success)
  show "\<exists>r. verificationResult (snd (verifyWithOpenId env token issuerUrl useCorsProxy s)) = Some r
        \<and> (details r \<noteq> None) = isValid r"
    unfolding verifyWithOpenId_def wrapper
    by (cases "verifyWithOpenId_try env token issuerUrl useCorsProxy ?s0")
      (auto split: sum.splits dest: openid_success)
qed



subsection \<open>The algorithm handed to jose\<close>

text \<open>
  C1, as stated, on the example provider: the OpenID flow calls \<^verbatim>\<open>jwtVerify\<close> with no
  list of algorithms at all, and the symmetric flow calls it with the algorithm of the
  form (here HS256) although the header of the token declares another one (HS512).
\<close>

theorem openid_passes_no_algorithm:
  "events (snd (verifyWithOpenId (example_platform network_idp) example_token
      ''https://idp.example'' False initial_world)) =
     [Fetch ''https://idp.example/.well-known/openid-configuration'',
      Fetch ''https://idp.example/jwks'',
      JwtVerify example_token (RemoteJWKSet ''https://idp.example/jwks'')
        \<lparr>algorithms = None, issuer = Some (Str ''https://idp.example'')\<rparr>]
   \<and> atob (arg_string (index (split example_token CHR ''.'') 0)) =
       Inr ''{\"alg\":\"HS512\",\"kid\":\"k1\"}''
   \<and> JSON_parse (example_platform network_idp) ''{\"alg\":\"HS512\",\"kid\":\"k1\"}'' =
       Inr (Obj [(''alg'', Str ''HS512''), (''kid'', Str ''k1'')])
   \<and> get_prop (Obj [(''alg'', Str ''HS512''), (''kid'', Str ''k1'')]) ''alg'' = Inr (Str ''HS512'')
   \<and> events (snd (verifyWithSymmetricKey (example_platform network_idp) example_token
        ''mysecret'' HS256 initial_world)) =
       [JwtVerify example_token (Secret (TextEncoder_encode ''mysecret''))
          \<lparr>algorithms = Some [Str ''HS256''], issuer = None\<rparr>]"
  by (simp add: example_token_header verifyWithOpenId_def verifyWithOpenId_try_def
      verifyWithSymmetricKey_def verifyWithSymmetricKey_try_def
      fetchWithCorsProxyFallback_def io_eval example_eval)

text \<open>
  C1, amended. In the asymmetric flow, once the header of the token is decoded, the
  algorithm given to \<^verbatim>\<open>importSPKI\<close> and, as the only allowed algorithm, to
  \<^verbatim>\<open>jwtVerify\<close> is the caller's override when it is given and not empty, else the
  \<^verbatim>\<open>alg\<close> of the header when that is truthy, else RS256. The symmetric flow calls
  \<^verbatim>\<open>jwtVerify\<close> exactly once, and the only allowed algorithm is the one selected in
  the form. The OpenID flow calls \<^verbatim>\<open>jwtVerify\<close> at most once, after its requests,
  and every such call has no list of algorithms, has the \<^verbatim>\<open>issuer\<close> of the discovery
  document as the expected issuer, and has as key set the remote set at the
  \<^verbatim>\<open>jwks_uri\<close> of that document (at its proxy URL when the proxy flag is set); and
  when both fetches succeed, the header has a truthy \<^verbatim>\<open>kid\<close>, an entry of the key set
  matches it and the URL of the key set is valid, that call is made.
\<close>

theorem algorithm_passed_to_jwtVerify:
  "(atob (arg_string (index (split token CHR ''.'') 0)) = Inr decoded
      \<and> JSON_parse env decoded = Inr tokenHeader
      \<and> (truthy (optional algorithm) \<or> get_prop tokenHeader ''alg'' = Inr headerAlg)
      \<and> alg = (if truthy (optional algorithm) then optional algorithm
                else if truthy headerAlg then headerAlg else Str ''RS256'')
     \<longrightarrow> events (snd (verifyWithAsymmetricKey env token publicKey algorithm s)) =
          events s @ ImportSPKI publicKey alg #
            (case jose_importSPKI env publicKey alg of
               Inl e \<Rightarrow> []
             | Inr key \<Rightarrow>
                 [JwtVerify token (KeyObject key) \<lparr>algorithms = Some [alg], issuer = None\<rparr>]))
   \<and> events (snd (verifyWithSymmetricKey env token secretKey hmac s)) =
       events s @ [JwtVerify token (Secret (TextEncoder_encode secretKey))
                     \<lparr>algorithms = Some [Str (hmac_name hmac)], issuer = None\<rparr>]
   \<and> (\<exists>F V. events (snd (verifyWithOpenId env token issuerUrl useCorsProxy s)) =
                events s @ map Fetch F @ V
            \<and> (V = [] \<or>
                 (\<exists>response document uri url keySet expected.
                   fst (fetchWithCorsProxyFallback env (openIdConfigUrl issuerUrl) useCorsProxy
                          (s\<lparr>isVerifying := True, verificationResult := None\<rparr>)) = Inr response
                   \<and> json response = Inr document
                   \<and> get_prop document ''jwks_uri'' = Inr uri
                   \<and> js_String (Number_toString env) uri = Inr url
                   \<and> URL_new env (if useCorsProxy then proxyUrl url else url) = Inr keySet
                   \<and> get_prop document ''issuer'' = Inr expected
                   \<and> V = [JwtVerify token (RemoteJWKSet keySet)
                             \<lparr>algorithms = None, issuer = Some expected\<rparr>])))
   \<and> (fst (fetchWithCorsProxyFallback env (openIdConfigUrl issuerUrl) useCorsProxy
              (s\<lparr>isVerifying := True, verificationResult := None\<rparr>)) = Inr configResponse
        \<and> json configResponse = Inr config
        \<and> get_prop config ''jwks_uri'' = Inr jwksUri
        \<and> truthy jwksUri
        \<and> js_String (Number_toString env) jwksUri = Inr jwksUrl
        \<and> fst (fetchWithCorsProxyFallback env jwksUrl useCorsProxy
                 (snd (fetchWithCorsProxyFallback env (openIdConfigUrl issuerUrl) useCorsProxy
                        (s\<lparr>isVerifying := True, verificationResult := None\<rparr>))))
            = Inr jwksResponse
        \<and> json jwksResponse = Inr jwks
        \<and> atob (arg_string (index (split token CHR ''.'') 0)) = Inr decoded
        \<and> JSON_parse env decoded = Inr tokenHeader
        \<and> get_prop tokenHeader ''kid'' = Inr kid
        \<and> truthy kid
        \<and> jwks_keys_find jwks kid = Inr matchingKey
        \<and> truthy matchingKey
        \<and> URL_new env (if useCorsProxy then proxyUrl jwksUrl else jwksUrl) = Inr jwksInstance
        \<and> get_prop config ''issuer'' = Inr configIssuer
       \<longrightarrow> events (snd (verifyWithOpenId env token issuerUrl useCorsProxy s)) =
            events (snd (fetchWithCorsProxyFallback env jwksUrl useCorsProxy
                     (snd (fetchWithCorsProxyFallback env (openIdConfigUrl issuerUrl) useCorsProxy
                            (s\<lparr>isVerifying := True, verificationResult := None\<rparr>)))))
            @ [JwtVerify token (RemoteJWKSet jwksInstance)
                 \<lparr>algorithms = None, issuer = Some configIssuer\<rparr>])"
proof (intro conjI impI)
  assume "atob (arg_string (index (split token CHR ''.'') 0)) = Inr decoded
      \<and> JSON_parse env decoded = Inr tokenHeader
      \<and> (truthy (optional algorithm) \<or> get_prop tokenHeader ''alg'' = Inr headerAlg)
      \<and> alg = (if truthy (optional algorithm) then optional algorithm
                else if truthy headerAlg then headerAlg else Str ''RS256'')"
  then show "events (snd (verifyWithAsymmetricKey env token publicKey algorithm s)) =
          events s @ ImportSPKI publicKey alg #
            (case jose_importSPKI env publicKey alg of
               Inl e \<Rightarrow> []
             | Inr key \<Rightarrow>
                 [JwtVerify token (KeyObject key) \<lparr>algorithms = Some [alg], issuer = None\<rparr>])"
    using asym_events [of token decoded env tokenHeader algorithm headerAlg alg publicKey s]
    by blast
next
  show "events (snd (verifyWithSymmetricKey env token secretKey hmac s)) =
       events s @ [JwtVerify token (Secret (TextEncoder_encode secretKey))
                     \<lparr>algorithms = Some [Str (hmac_name hmac)], issuer = None\<rparr>]"
    by (rule sym_events)
next
  let ?s0 = "s\<lparr>isVerifying := True, verificationResult := None\<rparr>"
  let ?R1 = "fetchWithCorsProxyFallback env (openIdConfigUrl issuerUrl) useCorsProxy ?s0"
  let ?run = "verifyWithOpenId env token issuerUrl useCorsProxy s"
  let ?goal = "\<exists>F V. events (snd ?run) = events s @ map Fetch F @ V
            \<and> (V = [] \<or>
                 (\<exists>response document uri url keySet expected.
                   fst ?R1 = Inr response
                   \<and> json response = Inr document
                   \<and> get_prop document ''jwks_uri'' = Inr uri
                   \<and> js_String (Number_toString env) uri = Inr url
                   \<and> URL_new env (if useCorsProxy then proxyUrl url else url) = Inr keySet
                   \<and> get_prop document ''issuer'' = Inr expected
                   \<and> V = [JwtVerify token (RemoteJWKSet keySet)
                             \<lparr>algorithms = None, issuer = Some expected\<rparr>]))"
  from openid_discovery_requests [of issuerUrl env useCorsProxy s]
  obtain D where D: "events (snd ?R1) = events s @ map Fetch D" by blast
  show ?goal
  proof (cases "\<exists>cr config ju jwksUrl. fst ?R1 = Inr cr \<and> json cr = Inr config
      \<and> get_prop config ''jwks_uri'' = Inr ju \<and> truthy ju
      \<and> js_String (Number_toString env) ju = Inr jwksUrl")
    case False
    from openid_discovery_failed [OF False, of token] D
    show ?thesis by (intro exI [of _ D] exI [of _ "[]"]) simp
  next
    case True
    then obtain cr config ju jwksUrl where good: "fst ?R1 = Inr cr" "json cr = Inr config"
      "get_prop config ''jwks_uri'' = Inr ju" "truthy ju"
      "js_String (Number_toString env) ju = Inr jwksUrl"
      by blast
    from openid_after_discovery [OF good, of token]
    obtain J V where JV:
      "events (snd (fetchWithCorsProxyFallback env jwksUrl useCorsProxy (snd ?R1))) =
         events (snd ?R1) @ map Fetch J"
      "events (snd ?run) =
         events (snd (fetchWithCorsProxyFallback env jwksUrl useCorsProxy (snd ?R1))) @ V"
      "V = [] \<or> (\<exists>jwksInstance configIssuer.
             URL_new env (if useCorsProxy then proxyUrl jwksUrl else jwksUrl) = Inr jwksInstance
             \<and> get_prop config ''issuer'' = Inr configIssuer
             \<and> V = [JwtVerify token (RemoteJWKSet jwksInstance)
                       \<lparr>algorithms = None, issuer = Some configIssuer\<rparr>])"
      by blast
    from JV(3) good have "V = [] \<or>
                 (\<exists>response document uri url keySet expected.
                   fst ?R1 = Inr response
                   \<and> json response = Inr document
                   \<and> get_prop document ''jwks_uri'' = Inr uri
                   \<and> js_String (Number_toString env) uri = Inr url
                   \<and> URL_new env (if useCorsProxy then proxyUrl url else url) = Inr keySet
                   \<and> get_prop document ''issuer'' = Inr expected
                   \<and> V = [JwtVerify token (RemoteJWKSet keySet)
                             \<lparr>algorithms = None, issuer = Some expected\<rparr>])"
      by blast
    with JV(1,2) D show ?thesis
      by (intro exI [of _ "D @ J"] exI [of _ V]) simp
  qed
next
  assume h: "fst (fetchWithCorsProxyFallback env (openIdConfigUrl issuerUrl) useCorsProxy
              (s\<lparr>isVerifying := True, verificationResult := None\<rparr>)) = Inr configResponse
        \<and> json configResponse = Inr config
        \<and> get_prop config ''jwks_uri'' = Inr jwksUri
        \<and> truthy jwksUri
        \<and> js_String (Number_toString env) jwksUri = Inr jwksUrl
        \<and> fst (fetchWithCorsProxyFallback env jwksUrl useCorsProxy
                 (snd (fetchWithCorsProxyFallback env (openIdConfigUrl issuerUrl) useCorsProxy
                        (s\<lparr>isVerifying := True, verificationResult := None\<rparr>))))
            = Inr jwksResponse
        \<and> json jwksResponse = Inr jwks
        \<and> atob (arg_string (index (split token CHR ''.'') 0)) = Inr decoded
        \<and> JSON_parse env decoded = Inr tokenHeader
        \<and> get_prop tokenHeader ''kid'' = Inr kid
        \<and> truthy kid
        \<and> jwks_keys_find jwks kid = Inr matchingKey
        \<and> truthy matchingKey
        \<and> URL_new env (if useCorsProxy then proxyUrl jwksUrl else jwksUrl) = Inr jwksInstance
        \<and> get_prop config ''issuer'' = Inr configIssuer"
  show "events (snd (verifyWithOpenId env token issuerUrl useCorsProxy s)) =
            events (snd (fetchWithCorsProxyFallback env jwksUrl useCorsProxy
                     (snd (fetchWithCorsProxyFallback env (openIdConfigUrl issuerUrl) useCorsProxy
                            (s\<lparr>isVerifying := True, verificationResult := None\<rparr>)))))
            @ [JwtVerify token (RemoteJWKSet jwksInstance)
                 \<lparr>algorithms = None, issuer = Some configIssuer\<rparr>]"
    by (rule openid_verify_call) (use h in blast)+
qed

text \<open>
  C1, amended, on the example token: in the asymmetric flow the calls carry ES256 with
  the override ES256 and the HS512 of the header without an override; in the OpenID flow
  on the example provider the call is made with the issuer and the key-set URL of the
  discovery document and no list of algorithms.
\<close>

theorem algorithm_passed_to_jwtVerify_witness:
  "atob (arg_string (index (split example_token CHR ''.'') 0)) =
     Inr ''{\"alg\":\"HS512\",\"kid\":\"k1\"}''
   \<and> JSON_parse (example_platform network_idp) ''{\"alg\":\"HS512\",\"kid\":\"k1\"}'' =
       Inr (Obj [(''alg'', Str ''HS512''), (''kid'', Str ''k1'')])
   \<and> truthy (optional (Some ''ES256''))
   \<and> events (snd (verifyWithAsymmetricKey (example_platform network_idp) example_token ''pem''
        (Some ''ES256'') initial_world)) =
       [ImportSPKI ''pem'' (Str ''ES256''),
        JwtVerify example_token (KeyObject (CryptoKey ''pem'' (Str ''ES256'')))
          \<lparr>algorithms = Some [Str ''ES256''], issuer = None\<rparr>]
   \<and> get_prop (Obj [(''alg'', Str ''HS512''), (''kid'', Str ''k1'')]) ''alg'' = Inr (Str ''HS512'')
   \<and> events (snd (verifyWithAsymmetricKey (example_platform network_idp) example_token ''pem''
        None initial_world)) =
       [ImportSPKI ''pem'' (Str ''HS512''),
        JwtVerify example_token (KeyObject (CryptoKey ''pem'' (Str ''HS512'')))
          \<lparr>algorithms = Some [Str ''HS512''], issuer = None\<rparr>]
   \<and> jwks_keys_find (Obj [(''keys'', Arr [Obj [(''kid'', Str ''k2'')], Obj [(''kid'', Str ''k1'')]])])
        (Str ''k1'') = Inr (Obj [(''kid'', Str ''k1'')])
   \<and> URL_new (example_platform network_idp) ''https://idp.example/jwks'' =
       Inr ''https://idp.example/jwks''
   \<and> events (snd (verifyWithOpenId (example_platform network_idp) example_token
        ''https://idp.example'' False initial_world)) =
       [Fetch ''https://idp.example/.well-known/openid-configuration'',
        Fetch ''https://idp.example/jwks'',
        JwtVerify example_token (RemoteJWKSet ''https://idp.example/jwks'')
          \<lparr>algorithms = None, issuer = Some (Str ''https://idp.example'')\<rparr>]"
proof -
  let ?E = "example_platform network_idp"
  let ?header = "Obj [(''alg'', Str ''HS512''), (''kid'', Str ''k1'')]"
  let ?config = "Obj [(''issuer'', Str ''https://idp.example''),
                      (''jwks_uri'', Str ''https://idp.example/jwks'')]"
  let ?jwks = "Obj [(''keys'', Arr [Obj [(''kid'', Str ''k2'')], Obj [(''kid'', Str ''k1'')]])]"
  have p: "JSON_parse ?E ''{\"alg\":\"HS512\",\"kid\":\"k1\"}'' = Inr ?header"
    by (simp add: example_eval)
  have t: "truthy (optional (Some ''ES256''))" by (simp add: optional_def)
  have g: "get_prop ?header ''alg'' = Inr (Str ''HS512'')" by simp
  have a: "events (snd (verifyWithAsymmetricKey ?E example_token ''pem'' (Some ''ES256'')
      initial_world)) =
       [ImportSPKI ''pem'' (Str ''ES256''),
        JwtVerify example_token (KeyObject (CryptoKey ''pem'' (Str ''ES256'')))
          \<lparr>algorithms = Some [Str ''ES256''], issuer = None\<rparr>]"
    using algorithm_passed_to_jwtVerify [where env = ?E and token = example_token
        and decoded = "''{\"alg\":\"HS512\",\"kid\":\"k1\"}''"
        and tokenHeader = ?header
        and algorithm = "Some ''ES256''" and headerAlg = "Str ''HS512''"
        and alg = "Str ''ES256''" and publicKey = "''pem''" and s = initial_world]
      example_token_header p t
    by (simp add: optional_def example_platform_def initial_world_def)
  have b: "events (snd (verifyWithAsymmetricKey ?E example_token ''pem'' None initial_world)) =
       [ImportSPKI ''pem'' (Str ''HS512''),
        JwtVerify example_token (KeyObject (CryptoKey ''pem'' (Str ''HS512'')))
          \<lparr>algorithms = Some [Str ''HS512''], issuer = None\<rparr>]"
    using algorithm_passed_to_jwtVerify [where env = ?E and token = example_token
        and decoded = "''{\"alg\":\"HS512\",\"kid\":\"k1\"}''"
        and tokenHeader = ?header
        and algorithm = None and headerAlg = "Str ''HS512''"
        and alg = "Str ''HS512''" and publicKey = "''pem''" and s = initial_world]
      example_token_header p g
    by (simp add: optional_def example_platform_def initial_world_def)
  have f: "jwks_keys_find ?jwks (Str ''k1'') = Inr (Obj [(''kid'', Str ''k1'')])"
    by (simp add: jwks_keys_find_def)
  have u: "URL_new ?E ''https://idp.example/jwks'' = Inr ''https://idp.example/jwks''"
    by (simp add: example_platform_def)
  have n: "Number_toString ?E = (\<lambda>n. ''0'')" by (simp add: example_platform_def)
  have c: "events (snd (verifyWithOpenId ?E example_token ''https://idp.example'' False
      initial_world)) =
       [Fetch ''https://idp.example/.well-known/openid-configuration'',
        Fetch ''https://idp.example/jwks'',
        JwtVerify example_token (RemoteJWKSet ''https://idp.example/jwks'')
          \<lparr>algorithms = None, issuer = Some (Str ''https://idp.example'')\<rparr>]"
    using algorithm_passed_to_jwtVerify [where env = ?E and token = example_token
        and issuerUrl = "''https://idp.example''" and useCorsProxy = False
        and s = initial_world and configResponse = config_response and config = ?config
        and jwksUri = "Str ''https://idp.example/jwks''"
        and jwksUrl = "''https://idp.example/jwks''" and jwksResponse = jwks_response
        and jwks = ?jwks and decoded = "''{\"alg\":\"HS512\",\"kid\":\"k1\"}''"
        and tokenHeader = ?header and kid = "Str ''k1''"
        and matchingKey = "Obj [(''kid'', Str ''k1'')]"
        and jwksInstance = "''https://idp.example/jwks''"
        and configIssuer = "Str ''https://idp.example''"]
      idp_fetched idp_config_json idp_jwks_json example_token_header p f u
    by (simp add: n)
  from example_token_header p t a g b f u c show ?thesis by simp
qed

text \<open>
  C9: in the asymmetric flow, when the caller gives no algorithm (none, or the empty
  string) and the decoded header has no \<^verbatim>\<open>alg\<close>, the key is imported for RS256 and
  the signature is verified with RS256 as the only allowed algorithm.
\<close>

theorem asymmetric_default_RS256:
  assumes "\<not> truthy (optional algorithm)"
    and "atob (arg_string (index (split token CHR ''.'') 0)) = Inr decoded"
    and "JSON_parse env decoded = Inr tokenHeader"
    and "get_prop tokenHeader ''alg'' = Inr Undefined"
  shows "events (snd (verifyWithAsymmetricKey env token publicKey algorithm s)) =
     events s @ ImportSPKI publicKey (Str ''RS256'') #
       (case jose_importSPKI env publicKey (Str ''RS256'') of
          Inl e \<Rightarrow> []
        | Inr key \<Rightarrow>
            [JwtVerify token (KeyObject key)
               \<lparr>algorithms = Some [Str ''RS256''], issuer = None\<rparr>])"
  using assms asym_events [of token decoded env tokenHeader algorithm Undefined "Str ''RS256''"]
  by simp

text \<open>C9 on the example token whose header is \<^verbatim>\<open>{"typ":"JWT"}\<close>, with no override.\<close>

theorem asymmetric_default_RS256_witness:
  "\<not> truthy (optional None)
   \<and> atob (arg_string (index (split token_without_kid CHR ''.'') 0)) = Inr ''{\"typ\":\"JWT\"}''
   \<and> JSON_parse (example_platform network_down) ''{\"typ\":\"JWT\"}'' =
       Inr (Obj [(''typ'', Str ''JWT'')])
   \<and> get_prop (Obj [(''typ'', Str ''JWT'')]) ''alg'' = Inr Undefined
   \<and> events (snd (verifyWithAsymmetricKey (example_platform network_down) token_without_kid
         ''pem'' None initial_world)) =
       [ImportSPKI ''pem'' (Str ''RS256''),
        JwtVerify token_without_kid (KeyObject (CryptoKey ''pem'' (Str ''RS256'')))
          \<lparr>algorithms = Some [Str ''RS256''], issuer = None\<rparr>]"
proof -
  let ?E = "example_platform network_down"
  have a: "\<not> truthy (optional None)" by (simp add: optional_def)
  have b: "JSON_parse ?E ''{\"typ\":\"JWT\"}'' = Inr (Obj [(''typ'', Str ''JWT'')])"
    by (simp add: example_eval)
  have c: "get_prop (Obj [(''typ'', Str ''JWT'')]) ''alg'' = Inr Undefined" by simp
  from asymmetric_default_RS256 [OF a token_without_kid_header b c, of "''pem''" initial_world]
  have "events (snd (verifyWithAsymmetricKey ?E token_without_kid ''pem'' None initial_world)) =
       [ImportSPKI ''pem'' (Str ''RS256''),
        JwtVerify token_without_kid (KeyObject (CryptoKey ''pem'' (Str ''RS256'')))
          \<lparr>algorithms = Some [Str ''RS256''], issuer = None\<rparr>]"
    by (simp add: example_eval)
  with a b c token_without_kid_header show ?thesis by simp
qed

subsection \<open>Decoding a segment\<close>

text \<open>
  C3 at a header segment in Base64URL, the encoding of
  \<^verbatim>\<open>{"alg":"HS256","typ":"JWT","kid":"k~1"}\<close>: \<^verbatim>\<open>atob\<close> rejects it for its
  \<^verbatim>\<open>-\<close>, and accepts the same bytes written with \<^verbatim>\<open>+\<close>, a character outside the
  URL-safe alphabet; likewise for \<^verbatim>\<open>_\<close> and \<^verbatim>\<open>/\<close>. A token with that header
  is decoded neither by \<open>decodeJwt\<close> nor by the asymmetric flow.
\<close>

theorem atob_rejects_base64url_segment:
  "atob ''eyJhbGciOiJIUzI1NiIsInR5cCI6IkpXVCIsImtpZCI6Imt-MSJ9'' = Inl InvalidCharacterError
   \<and> atob ''eyJhbGciOiJIUzI1NiIsInR5cCI6IkpXVCIsImtpZCI6Imt+MSJ9'' =
       Inr ''{\"alg\":\"HS256\",\"typ\":\"JWT\",\"kid\":\"k~1\"}''
   \<and> atob ''Pz8_'' = Inl InvalidCharacterError
   \<and> atob ''Pz8/'' = Inr ''???''
   \<and> decodeJwt_try env token_base64url = Inl InvalidCharacterError
   \<and> fst (verifyWithAsymmetricKey_try env token_base64url publicKey algorithm s) =
       Inl InvalidCharacterError"
  by (simp add: base64_eval decodeJwt_try_def decodeJwt_parts_def or_throw_def
      token_base64url_def verifyWithAsymmetricKey_try_def await_def lift_def)

subsection \<open>The requests of the OpenID flow\<close>

text \<open>
  C2 at a network that answers every request with status 404, the proxy flag not set:
  the direct request, the proxy request of the \<^verbatim>\<open>try\<close> block and the proxy request
  of the \<^verbatim>\<open>catch\<close> block are all made, three requests for one URL.
\<close>

theorem fetchWithCorsProxyFallback_three_requests:
  "events (snd (fetchWithCorsProxyFallback (example_platform network_404)
      ''https://idp.example/jwks'' False initial_world)) =
     [Fetch ''https://idp.example/jwks'',
      Fetch ''https://corsproxy.io/?https%3A%2F%2Fidp.example%2Fjwks'',
      Fetch ''https://corsproxy.io/?https%3A%2F%2Fidp.example%2Fjwks'']"
  by (simp add: fetchWithCorsProxyFallback_def io_eval example_eval uri_eval)




subsection \<open>The key identifier in the OpenID flow\<close>

text \<open>
  C6, as stated. At a token whose header has no \<^verbatim>\<open>kid\<close> while the network is down,
  the call fails with the error of the fetch, not with the error about the missing key
  identifier: the header is only looked at after both fetches. On the example provider,
  a token whose header is \<^verbatim>\<open>null\<close> fails with the TypeError of reading \<^verbatim>\<open>kid\<close>;
  a token whose \<^verbatim>\<open>kid\<close> is the object \<^verbatim>\<open>{"toString":1}\<close>, which no entry
  matches, fails with the TypeError of converting it for the message; and with a
  \<^verbatim>\<open>null\<close> entry in the key set, a token whose \<^verbatim>\<open>kid\<close> no entry matches fails with
  the TypeError of reading the \<^verbatim>\<open>kid\<close> of that entry.
\<close>

theorem openid_missing_kid_after_failed_fetch:
  "atob (arg_string (index (split token_without_kid CHR ''.'') 0)) = Inr ''{\"typ\":\"JWT\"}''
   \<and> JSON_parse (example_platform network_down) ''{\"typ\":\"JWT\"}'' =
       Inr (Obj [(''typ'', Str ''JWT'')])
   \<and> get_prop (Obj [(''typ'', Str ''JWT'')]) ''kid'' = Inr Undefined
   \<and> verificationResult (snd (verifyWithOpenId (example_platform network_down) token_without_kid
        ''https://idp.example'' False initial_world)) =
       Some \<lparr>isValid = False, message = ''Failed to fetch'', details = None\<rparr>
   \<and> atob (arg_string (index (split token_null_header CHR ''.'') 0)) = Inr ''null''
   \<and> JSON_parse (example_platform network_idp) ''null'' = Inr Null
   \<and> verificationResult (snd (verifyWithOpenId (example_platform network_idp) token_null_header
        ''https://idp.example'' False initial_world)) =
       Some \<lparr>isValid = False, message = ''TypeError'', details = None\<rparr>
   \<and> atob (arg_string (index (split token_object_kid CHR ''.'') 0)) =
       Inr ''{\"kid\":{\"toString\":1}}''
   \<and> JSON_parse (example_platform network_idp) ''{\"kid\":{\"toString\":1}}'' =
       Inr (Obj [(''kid'', Obj [(''toString'', Num 1)])])
   \<and> jwks_keys_find (Obj [(''keys'', Arr [Obj [(''kid'', Str ''k2'')], Obj [(''kid'', Str ''k1'')]])])
        (Obj [(''toString'', Num 1)]) = Inr Undefined
   \<and> verificationResult (snd (verifyWithOpenId (example_platform network_idp) token_object_kid
        ''https://idp.example'' False initial_world)) =
       Some \<lparr>isValid = False, message = ''TypeError'', details = None\<rparr>
   \<and> verificationResult (snd (verifyWithOpenId (example_platform network_null_key)
        token_unknown_kid ''https://idp.example'' False initial_world)) =
       Some \<lparr>isValid = False, message = ''TypeError'', details = None\<rparr>"
  by (simp add: token_without_kid_header token_null_header_header token_object_kid_header
      token_unknown_kid_header verifyWithOpenId_def verifyWithOpenId_try_def
      fetchWithCorsProxyFallback_def io_eval example_eval)

text \<open>
  C6, amended. In the OpenID flow, once both fetches have returned, their JSON bodies are
  read and the header of the token is decoded to a value other than \<^verbatim>\<open>null\<close>: if the
  \<^verbatim>\<open>kid\<close> of the header is absent (or falsy) the result is invalid with the message
  that the header has no key identifier; if it is truthy and the key set has a
  \<^verbatim>\<open>keys\<close> array without \<^verbatim>\<open>null\<close> entries of which no entry has a \<^verbatim>\<open>kid\<close>
  strictly equal to it, however many entries there are, the result is invalid and nothing
  is verified, with the message that no key matches that \<^verbatim>\<open>kid\<close> when the \<^verbatim>\<open>kid\<close>
  has a string conversion and with the message of the conversion's TypeError when it has
  none; and the scan finds the first entry whose \<^verbatim>\<open>kid\<close> is strictly equal to that
  of the token.
\<close>

theorem openid_key_selection:
  assumes "fetchWithCorsProxyFallback env (openIdConfigUrl issuerUrl) useCorsProxy
             (s\<lparr>isVerifying := True, verificationResult := None\<rparr>) = (Inr configResponse, s1)"
    and "json configResponse = Inr config"
    and "get_prop config ''jwks_uri'' = Inr jwksUri"
    and "truthy jwksUri"
    and "js_String (Number_toString env) jwksUri = Inr jwksUrl"
    and "fetchWithCorsProxyFallback env jwksUrl useCorsProxy s1 = (Inr jwksResponse, s2)"
    and "json jwksResponse = Inr jwks"
    and "atob (arg_string (index (split token CHR ''.'') 0)) = Inr decoded"
    and "JSON_parse env decoded = Inr tokenHeader"
    and "get_prop tokenHeader ''kid'' = Inr kid"
  shows "(\<not> truthy kid \<longrightarrow>
            verificationResult (snd (verifyWithOpenId env token issuerUrl useCorsProxy s)) =
              Some \<lparr>isValid = False,
                    message = ''Token header does not contain a key ID (kid)'',
                    details = None\<rparr>
            \<and> events (snd (verifyWithOpenId env token issuerUrl useCorsProxy s)) = events s2)
     \<and> (truthy kid \<and> get_prop jwks ''keys'' = Inr (Arr keys)
          \<and> (\<forall>key \<in> set keys. \<exists>v. get_prop key ''kid'' = Inr v \<and> \<not> strict_equals v kid) \<longrightarrow>
            verificationResult (snd (verifyWithOpenId env token issuerUrl useCorsProxy s)) =
              Some \<lparr>isValid = False,
                    message =
                      (case js_String (Number_toString env) kid of
                         Inr kidText \<Rightarrow> ''No matching key found for kid: '' @ kidText
                       | Inl error \<Rightarrow> catch_message env error ''OpenID verification failed''),
                    details = None\<rparr>
            \<and> events (snd (verifyWithOpenId env token issuerUrl useCorsProxy s)) = events s2)
     \<and> (truthy kid \<and> get_prop jwks ''keys'' = Inr (Arr (before @ key # after))
          \<and> (\<forall>k \<in> set before. \<exists>v. get_prop k ''kid'' = Inr v \<and> \<not> strict_equals v kid)
          \<and> get_prop key ''kid'' = Inr v \<and> strict_equals v kid \<longrightarrow>
            jwks_keys_find jwks kid = Inr key)"
proof (intro conjI impI)
  let ?s0 = "s\<lparr>isVerifying := True, verificationResult := None\<rparr>"
  let ?run = "verifyWithOpenId env token issuerUrl useCorsProxy s"
  note stages = assms(1-3,5-10)
  {
    assume "\<not> truthy kid"
    then have body: "verifyWithOpenId_try env token issuerUrl useCorsProxy ?s0 =
        (Inl (Error ''Token header does not contain a key ID (kid)''), s2)"
      using assms(4)
      by (simp add: verifyWithOpenId_try_def await_def lift_def io_throw_def stages)
    show "verificationResult (snd ?run) =
        Some \<lparr>isValid = False, message = ''Token header does not contain a key ID (kid)'',
              details = None\<rparr>"
      by (simp add: verifyWithOpenId_def wrapper body catch_message_def)
    show "events (snd ?run) = events s2"
      by (simp add: verifyWithOpenId_def wrapper body)
  }
  {
    assume h: "truthy kid \<and> get_prop jwks ''keys'' = Inr (Arr keys)
          \<and> (\<forall>key \<in> set keys. \<exists>v. get_prop key ''kid'' = Inr v \<and> \<not> strict_equals v kid)"
    then have "find_kid keys kid = Inr Undefined" by (simp add: find_kid_none)
    with h have found: "jwks_keys_find jwks kid = Inr Undefined"
      by (simp add: jwks_keys_find_def)
    have body: "verifyWithOpenId_try env token issuerUrl useCorsProxy ?s0 =
        (case js_String (Number_toString env) kid of
           Inr kidText \<Rightarrow> (Inl (Error (''No matching key found for kid: '' @ kidText)), s2)
         | Inl error \<Rightarrow> (Inl error, s2))"
      using assms(4) h
      by (simp add: verifyWithOpenId_try_def await_def lift_def io_throw_def stages found
          split: sum.splits)
    show "verificationResult (snd ?run) =
        Some \<lparr>isValid = False,
              message =
                (case js_String (Number_toString env) kid of
                   Inr kidText \<Rightarrow> ''No matching key found for kid: '' @ kidText
                 | Inl error \<Rightarrow> catch_message env error ''OpenID verification failed''),
              details = None\<rparr>"
      by (simp add: verifyWithOpenId_def wrapper body catch_message_def split: sum.splits)
    show "events (snd ?run) = events s2"
      by (simp add: verifyWithOpenId_def wrapper body split: sum.splits)
  }
  {
    assume "truthy kid \<and> get_prop jwks ''keys'' = Inr (Arr (before @ key # after))
          \<and> (\<forall>k \<in> set before. \<exists>v. get_prop k ''kid'' = Inr v \<and> \<not> strict_equals v kid)
          \<and> get_prop key ''kid'' = Inr v \<and> strict_equals v kid"
    then show "jwks_keys_find jwks kid = Inr key"
      by (simp add: jwks_keys_find_def find_kid_first)
  }
qed

text \<open>
  C6, amended, on the example provider, whose key set holds \<^verbatim>\<open>k2\<close> and \<^verbatim>\<open>k1\<close>: a
  token without \<^verbatim>\<open>kid\<close>, a token with the unknown \<^verbatim>\<open>kid\<close> \<^verbatim>\<open>k9\<close>, a token
  whose \<^verbatim>\<open>kid\<close> is an object without string conversion, and a token with \<^verbatim>\<open>k1\<close>,
  which the scan finds behind \<^verbatim>\<open>k2\<close>.
\<close>

theorem openid_key_selection_witness:
  "verificationResult (snd (verifyWithOpenId (example_platform network_idp) token_without_kid
      ''https://idp.example'' False initial_world)) =
     Some \<lparr>isValid = False, message = ''Token header does not contain a key ID (kid)'',
           details = None\<rparr>
   \<and> verificationResult (snd (verifyWithOpenId (example_platform network_idp) token_unknown_kid
      ''https://idp.example'' False initial_world)) =
     Some \<lparr>isValid = False, message = ''No matching key found for kid: k9'', details = None\<rparr>
   \<and> events (snd (verifyWithOpenId (example_platform network_idp) token_unknown_kid
      ''https://idp.example'' False initial_world)) =
     [Fetch ''https://idp.example/.well-known/openid-configuration'',
      Fetch ''https://idp.example/jwks'']
   \<and> verificationResult (snd (verifyWithOpenId (example_platform network_idp) token_object_kid
      ''https://idp.example'' False initial_world)) =
     Some \<lparr>isValid = False, message = ''TypeError'', details = None\<rparr>
   \<and> jwks_keys_find (Obj [(''keys'', Arr [Obj [(''kid'', Str ''k2'')], Obj [(''kid'', Str ''k1'')]])])
        (Str ''k1'') = Inr (Obj [(''kid'', Str ''k1'')])"
proof -
  let ?E = "example_platform network_idp"
  let ?jwks = "Obj [(''keys'', Arr [Obj [(''kid'', Str ''k2'')], Obj [(''kid'', Str ''k1'')]])]"
  have uri: "get_prop (Obj [(''issuer'', Str ''https://idp.example''),
      (''jwks_uri'', Str ''https://idp.example/jwks'')]) ''jwks_uri'' =
      Inr (Str ''https://idp.example/jwks'')"
    by simp
  have truthy_uri: "truthy (Str ''https://idp.example/jwks'')" by simp
  have url: "js_String (Number_toString ?E) (Str ''https://idp.example/jwks'') =
      Inr ''https://idp.example/jwks''"
    by simp
  note fetched = idp_config_fetch idp_config_json uri truthy_uri url idp_jwks_fetch idp_jwks_json
  have p1: "JSON_parse ?E ''{\"typ\":\"JWT\"}'' = Inr (Obj [(''typ'', Str ''JWT'')])"
    by (simp add: example_eval)
  have k1: "get_prop (Obj [(''typ'', Str ''JWT'')]) ''kid'' = Inr Undefined" by simp
  have p2: "JSON_parse ?E ''{\"alg\":\"RS256\",\"kid\":\"k9\"}'' =
      Inr (Obj [(''alg'', Str ''RS256''), (''kid'', Str ''k9'')])"
    by (simp add: example_eval)
  have k2: "get_prop (Obj [(''alg'', Str ''RS256''), (''kid'', Str ''k9'')]) ''kid'' =
      Inr (Str ''k9'')"
    by simp
  have p3: "JSON_parse ?E ''{\"alg\":\"HS512\",\"kid\":\"k1\"}'' =
      Inr (Obj [(''alg'', Str ''HS512''), (''kid'', Str ''k1'')])"
    by (simp add: example_eval)
  have k3: "get_prop (Obj [(''alg'', Str ''HS512''), (''kid'', Str ''k1'')]) ''kid'' =
      Inr (Str ''k1'')"
    by simp
  have p4: "JSON_parse ?E ''{\"kid\":{\"toString\":1}}'' =
      Inr (Obj [(''kid'', Obj [(''toString'', Num 1)])])"
    by (simp add: example_eval)
  have k4: "get_prop (Obj [(''kid'', Obj [(''toString'', Num 1)])]) ''kid'' =
      Inr (Obj [(''toString'', Num 1)])"
    by simp
  have a: "verificationResult (snd (verifyWithOpenId ?E token_without_kid
      ''https://idp.example'' False initial_world)) =
     Some \<lparr>isValid = False, message = ''Token header does not contain a key ID (kid)'',
           details = None\<rparr>"
    using openid_key_selection [OF fetched token_without_kid_header p1 k1] by simp
  have b: "verificationResult (snd (verifyWithOpenId ?E token_unknown_kid
      ''https://idp.example'' False initial_world)) =
     Some \<lparr>isValid = False, message = ''No matching key found for kid: k9'', details = None\<rparr>
    \<and> events (snd (verifyWithOpenId ?E token_unknown_kid
      ''https://idp.example'' False initial_world)) =
     [Fetch ''https://idp.example/.well-known/openid-configuration'',
      Fetch ''https://idp.example/jwks'']"
    using openid_key_selection [OF fetched token_unknown_kid_header p2 k2,
        where keys = "[Obj [(''kid'', Str ''k2'')], Obj [(''kid'', Str ''k1'')]]"]
    by (simp add: initial_world_def)
  have c: "jwks_keys_find ?jwks (Str ''k1'') = Inr (Obj [(''kid'', Str ''k1'')])"
    using openid_key_selection [OF fetched example_token_header p3 k3,
        where before = "[Obj [(''kid'', Str ''k2'')]]" and key = "Obj [(''kid'', Str ''k1'')]"
          and after = "[]" and v = "Str ''k1''"]
    by simp
  have d: "verificationResult (snd (verifyWithOpenId ?E token_object_kid
      ''https://idp.example'' False initial_world)) =
     Some \<lparr>isValid = False, message = ''TypeError'', details = None\<rparr>"
    using openid_key_selection [OF fetched token_object_kid_header p4 k4,
        where keys = "[Obj [(''kid'', Str ''k2'')], Obj [(''kid'', Str ''k1'')]]"]
    by (simp add: catch_message_def example_platform_def)
  from a b c d show ?thesis by simp
qed

end
